theory Spec2Isabelle
  imports Main "HOL-Library.Sublist"
begin

section \<open>Python values shared by both front ends\<close>

text \<open>
  Text is a \<^typ>\<open>string\<close>; a \<^typ>\<open>char\<close> stands for one code point below 256.
  \<open>isspace\<close> lists the code points of that range for which Python's \<open>str.isspace\<close>
  holds, and \<open>strip\<close> is \<open>str.strip()\<close> with no argument: it drops them from both ends.
  \<open>py_in p s\<close> is the Python test \<open>p in s\<close> on strings (a contiguous occurrence).
\<close>

definition isspace :: "char \<Rightarrow> bool" where
  "isspace c =
     (c \<in> set [CHR 0x09, CHR 0x0A, CHR 0x0B, CHR 0x0C, CHR 0x0D, CHR 0x1C, CHR 0x1D,
               CHR 0x1E, CHR 0x1F, CHR 0x20, CHR 0x85, CHR 0xA0])"

definition strip :: "string \<Rightarrow> string" where
  "strip s = rev (dropWhile isspace (rev (dropWhile isspace s)))"

primrec py_in :: "string \<Rightarrow> string \<Rightarrow> bool" where
  "py_in p [] = (p = [])"
| "py_in p (c # cs) = (prefix p (c # cs) \<or> py_in p cs)"

text \<open>
  The third-party libraries raise ordinary Python exceptions. Only one distinction of
  class is ever tested by the source (\<open>except ValueError\<close> in the form), so an exception
  of a collaborator is a \<open>ValueError\<close> or something else, with the text \<open>str(e)\<close> gives.
  \<open>app.py\<close> adds FastAPI's \<open>HTTPException(status_code, detail)\<close>, which no collaborator
  raises.
\<close>

datatype py_exception = ValueError string | OtherException string

fun str_of :: "py_exception \<Rightarrow> string" where
  "str_of (ValueError m) = m"
| "str_of (OtherException m) = m"

datatype exn = HTTPException nat string | Raised py_exception

datatype document = Document string "(string \<times> string) list"

datatype chat_groq = ChatGroq string string

record text_summarizer =
  llm :: chat_groq
  prompt :: string

datatype summarization_request = SummarizationRequest string string

fun req_groq_api_key :: "summarization_request \<Rightarrow> string" where
  "req_groq_api_key (SummarizationRequest k u) = k"

fun req_url :: "summarization_request \<Rightarrow> string" where
  "req_url (SummarizationRequest k u) = u"

datatype summarization_response = SummarizationResponse string

subsection \<open>Collaborators, the log and the trace of collaborator calls\<close>

text \<open>
  The collaborators are outside the repository: \<open>validators.url\<close>, the \<open>ChatGroq\<close>
  constructor, \<open>YoutubeLoader.from_youtube_url(...).load()\<close>,
  \<open>UnstructuredURLLoader(...).load()\<close> and \<open>load_summarize_chain(...).run(docs)\<close>. A
  \<open>world\<close> fixes what each of them answers during one request; the embedding is
  parametric in it. \<open>Inl e\<close> (for the constructor, \<open>Some e\<close>) is the exception raised.
\<close>

record world =
  validators_url :: "string \<Rightarrow> bool"
  chat_groq_init :: "string \<Rightarrow> string \<Rightarrow> py_exception option"
  youtube_loader :: "string \<Rightarrow> bool \<Rightarrow> py_exception + document list"
  unstructured_url_loader :: "string \<Rightarrow> py_exception + document list"
  summarize_chain :: "chat_groq \<Rightarrow> string \<Rightarrow> document list \<Rightarrow> py_exception + string"

datatype level = INFO | WARNING | ERROR

datatype log_record = LogRecord level string "py_exception option"

datatype call =
    NewChatGroq string string
  | YoutubeLoad string bool "string list"
  | UnstructuredURLLoad "string list" bool string
  | ChainRun chat_groq string "document list"

record state =
  logs :: "log_record list"
  calls :: "call list"

definition log_msg :: "level \<Rightarrow> string \<Rightarrow> state \<Rightarrow> state" where
  "log_msg lvl m s = s\<lparr>logs := logs s @ [LogRecord lvl m None]\<rparr>"

definition log_exception :: "string \<Rightarrow> py_exception \<Rightarrow> state \<Rightarrow> state" where
  "log_exception m e s = s\<lparr>logs := logs s @ [LogRecord ERROR m (Some e)]\<rparr>"

definition invoke :: "call \<Rightarrow> state \<Rightarrow> state" where
  "invoke c s = s\<lparr>calls := calls s @ [c]\<rparr>"

subsection \<open>Constants of both modules\<close>

definition GEMMA_MODEL :: string where
  "GEMMA_MODEL = ''gemma2-9b-it''"

definition USER_AGENT :: string where
  "USER_AGENT = ''Mozilla/5.0 (Macintosh; Intel Mac OS X 13_5_1) AppleWebKit/537.36 (KHTML, like Gecko) Chrome/116.0.0.0 Safari/537.36''"

definition PROMPT_TEMPLATE :: string where
  "PROMPT_TEMPLATE =
     [CHR 0x0A] @ ''            Provide a summary of the following content in 300 words for the below content:''
     @ [CHR 0x0A] @ ''            **Content:** {text}''
     @ [CHR 0x0A] @ ''            ''"

definition is_youtube :: "string \<Rightarrow> bool" where
  "is_youtube url = (py_in ''youtube.com'' url \<or> py_in ''youtu.be'' url)"

definition YOUTUBE_GUIDANCE :: string where
  "YOUTUBE_GUIDANCE =
     ''Failed to load YouTube content. Please ensure:'' @ [CHR 0x0A]
     @ ''1. The video exists and is publicly available'' @ [CHR 0x0A]
     @ ''2. The video has English subtitles/captions available'' @ [CHR 0x0A]
     @ ''3. The URL is correct and accessible''"

section \<open>app.py: the request endpoint\<close>

text \<open>\<open>TextSummarizer.__init__\<close> (app.py 74-83).\<close>

definition text_summarizer_init ::
  "world \<Rightarrow> string \<Rightarrow> state \<Rightarrow> (exn + text_summarizer) \<times> state" where
  "text_summarizer_init w api_key s =
     (let s1 = invoke (NewChatGroq GEMMA_MODEL api_key) s in
      case chat_groq_init w GEMMA_MODEL api_key of
        Some e \<Rightarrow> (Inl (Raised e), s1)
      | None \<Rightarrow> (Inr \<lparr>llm = ChatGroq GEMMA_MODEL api_key, prompt = PROMPT_TEMPLATE\<rparr>, s1))"

text \<open>
  \<open>TextSummarizer.extract_youtube_content\<close> (app.py 85-124). The first \<open>try\<close> either
  returns or falls through to the second; \<open>None\<close> is the fall-through.
\<close>

definition extract_youtube_content ::
  "world \<Rightarrow> string \<Rightarrow> state \<Rightarrow> (exn + document list) \<times> state" where
  "extract_youtube_content w url s =
     (let s1 = invoke (YoutubeLoad url True [''en'']) s;
          first =
            (case youtube_loader w url True of
               Inr docs \<Rightarrow>
                 if docs \<noteq> []
                 then (Some docs,
                       log_msg INFO (''Successfully loaded YouTube content with video info from '' @ url) s1)
                 else (None, s1)
             | Inl e \<Rightarrow>
                 (None, log_msg WARNING (''Failed to load YouTube with video info: '' @ str_of e) s1))
      in case first of
           (Some docs, s2) \<Rightarrow> (Inr docs, s2)
         | (None, s2) \<Rightarrow>
             (let s3 = invoke (YoutubeLoad url False [''en'']) s2 in
              case youtube_loader w url False of
                Inr docs \<Rightarrow>
                  if docs \<noteq> []
                  then (Inr docs,
                        log_msg INFO (''Successfully loaded YouTube content without video info from '' @ url) s3)
                  else (Inl (HTTPException 400 ''No content could be extracted from the YouTube video''), s3)
              | Inl e \<Rightarrow>
                  (Inl (HTTPException 400
                     ''Could not extract YouTube transcript. Please ensure the video has English subtitles available.''),
                   log_msg ERROR (''Failed to load YouTube content: '' @ str_of e) s3)))"

text \<open>
  \<open>TextSummarizer.load_content\<close> (app.py 126-163): \<open>load_content_try\<close> is the body of the
  \<open>try\<close>, \<open>load_content\<close> adds the two handlers.
\<close>

definition load_content_try ::
  "world \<Rightarrow> string \<Rightarrow> state \<Rightarrow> (exn + document list) \<times> state" where
  "load_content_try w url s =
     (if is_youtube url then extract_youtube_content w url s
      else
        (let s1 = invoke (UnstructuredURLLoad [url] False USER_AGENT) s in
         case unstructured_url_loader w url of
           Inl e \<Rightarrow> (Inl (Raised e), s1)
         | Inr docs \<Rightarrow>
             if docs = []
             then (Inl (HTTPException 400 ''No content could be extracted from the URL''), s1)
             else (Inr docs, s1)))"

definition load_content ::
  "world \<Rightarrow> string \<Rightarrow> state \<Rightarrow> (exn + document list) \<times> state" where
  "load_content w url s =
     (case load_content_try w url s of
        (Inl (HTTPException c d), s1) \<Rightarrow> (Inl (HTTPException c d), s1)
      | (Inl (Raised e), s1) \<Rightarrow>
          (let s2 = log_msg ERROR (''Error loading content from URL '' @ url @ '': '' @ str_of e) s1 in
           if is_youtube url
           then (Inl (HTTPException 400 YOUTUBE_GUIDANCE), s2)
           else (Inl (HTTPException 400 (''Failed to load content: '' @ str_of e)), s2))
      | (Inr docs, s1) \<Rightarrow> (Inr docs, s1))"

text \<open>\<open>TextSummarizer.generate_summary\<close> (app.py 165-175).\<close>

definition generate_summary ::
  "world \<Rightarrow> text_summarizer \<Rightarrow> document list \<Rightarrow> state \<Rightarrow> (exn + string) \<times> state" where
  "generate_summary w self docs s =
     (let s1 = invoke (ChainRun (llm self) (prompt self) docs) s in
      case summarize_chain w (llm self) (prompt self) docs of
        Inr text \<Rightarrow> (Inr text, s1)
      | Inl e \<Rightarrow>
          (Inl (HTTPException 500 (''Failed to generate summary: '' @ str_of e)),
           log_msg ERROR (''Error generating summary: '' @ str_of e) s1))"

text \<open>
  \<open>summarize\<close> (app.py 185-227): \<open>summarize_try\<close> is the body of its \<open>try\<close>; the three
  checks before it raise outside the \<open>try\<close>.
\<close>

definition summarize_try ::
  "world \<Rightarrow> string \<Rightarrow> string \<Rightarrow> state \<Rightarrow> (exn + summarization_response) \<times> state" where
  "summarize_try w groq_api_key url s =
     (case text_summarizer_init w groq_api_key s of
        (Inl e, s1) \<Rightarrow> (Inl e, s1)
      | (Inr summarizer, s1) \<Rightarrow>
          (case load_content w url s1 of
             (Inl e, s2) \<Rightarrow> (Inl e, s2)
           | (Inr docs, s2) \<Rightarrow>
               (case generate_summary w summarizer docs s2 of
                  (Inl e, s3) \<Rightarrow> (Inl e, s3)
                | (Inr summary, s3) \<Rightarrow> (Inr (SummarizationResponse summary), s3))))"

definition summarize ::
  "world \<Rightarrow> summarization_request \<Rightarrow> state \<Rightarrow> (exn + summarization_response) \<times> state" where
  "summarize w request s =
     (let groq_api_key = strip (req_groq_api_key request);
          url = strip (req_url request)
      in if groq_api_key = [] then (Inl (HTTPException 400 ''API Key is required''), s)
         else if url = [] then (Inl (HTTPException 400 ''URL is required''), s)
         else if \<not> validators_url w url then (Inl (HTTPException 400 ''Invalid URL provided''), s)
         else
           (case summarize_try w groq_api_key url s of
              (Inl (HTTPException c d), s1) \<Rightarrow> (Inl (HTTPException c d), s1)
            | (Inl (Raised e), s1) \<Rightarrow>
                (Inl (HTTPException 500 (''An unexpected error occurred: '' @ str_of e)),
                 log_exception ''Unexpected error occurred'' e s1)
            | (Inr response, s1) \<Rightarrow> (Inr response, s1)))"

section \<open>streamlit_app.py: the interactive form\<close>

text \<open>
  The form's \<open>TextSummarizer\<close> raises \<open>ValueError\<close> where the endpoint's raises
  \<open>HTTPException\<close>; its constructor (streamlit_app.py 37-50) is the same as the endpoint's
  and lets the exception of \<open>ChatGroq\<close> through.
\<close>

definition st_text_summarizer_init ::
  "world \<Rightarrow> string \<Rightarrow> state \<Rightarrow> (py_exception + text_summarizer) \<times> state" where
  "st_text_summarizer_init w api_key s =
     (let s1 = invoke (NewChatGroq GEMMA_MODEL api_key) s in
      case chat_groq_init w GEMMA_MODEL api_key of
        Some e \<Rightarrow> (Inl e, s1)
      | None \<Rightarrow> (Inr \<lparr>llm = ChatGroq GEMMA_MODEL api_key, prompt = PROMPT_TEMPLATE\<rparr>, s1))"

text \<open>\<open>TextSummarizer.extract_youtube_content\<close> (streamlit_app.py 52-97).\<close>

definition st_extract_youtube_content ::
  "world \<Rightarrow> string \<Rightarrow> state \<Rightarrow> (py_exception + document list) \<times> state" where
  "st_extract_youtube_content w url s =
     (let s1 = invoke (YoutubeLoad url True [''en'']) s;
          first =
            (case youtube_loader w url True of
               Inr docs \<Rightarrow>
                 if docs \<noteq> []
                 then (Some docs,
                       log_msg INFO (''Successfully loaded YouTube content with video info from '' @ url) s1)
                 else (None, s1)
             | Inl e \<Rightarrow>
                 (None, log_msg WARNING (''Failed to load YouTube with video info: '' @ str_of e) s1))
      in case first of
           (Some docs, s2) \<Rightarrow> (Inr docs, s2)
         | (None, s2) \<Rightarrow>
             (let s3 = invoke (YoutubeLoad url False [''en'']) s2 in
              case youtube_loader w url False of
                Inr docs \<Rightarrow>
                  if docs \<noteq> []
                  then (Inr docs,
                        log_msg INFO (''Successfully loaded YouTube content without video info from '' @ url) s3)
                  else (Inl (ValueError ''No content could be extracted from the YouTube video''), s3)
              | Inl e \<Rightarrow>
                  (Inl (ValueError
                     ''Could not extract YouTube transcript. Please ensure the video has English subtitles available.''),
                   log_msg ERROR (''Failed to load YouTube content: '' @ str_of e) s3)))"

text \<open>
  \<open>TextSummarizer.load_content\<close> (streamlit_app.py 99-135). Its single handler is
  \<open>except Exception\<close>: the \<open>ValueError\<close>s raised inside the \<open>try\<close> are caught by it too.
\<close>

definition st_load_content_try ::
  "world \<Rightarrow> string \<Rightarrow> state \<Rightarrow> (py_exception + document list) \<times> state" where
  "st_load_content_try w url s =
     (if is_youtube url then st_extract_youtube_content w url s
      else
        (let s1 = invoke (UnstructuredURLLoad [url] False USER_AGENT) s in
         case unstructured_url_loader w url of
           Inl e \<Rightarrow> (Inl e, s1)
         | Inr docs \<Rightarrow>
             if docs = []
             then (Inl (ValueError ''No content could be extracted from the URL''), s1)
             else (Inr docs, s1)))"

definition st_load_content ::
  "world \<Rightarrow> string \<Rightarrow> state \<Rightarrow> (py_exception + document list) \<times> state" where
  "st_load_content w url s =
     (case st_load_content_try w url s of
        (Inl e, s1) \<Rightarrow>
          (let s2 = log_msg ERROR (''Error loading content from URL '' @ url @ '': '' @ str_of e) s1 in
           if is_youtube url
           then (Inl (ValueError YOUTUBE_GUIDANCE), s2)
           else (Inl (ValueError (''Failed to load content: '' @ str_of e)), s2))
      | (Inr docs, s1) \<Rightarrow> (Inr docs, s1))"

text \<open>\<open>TextSummarizer.generate_summary\<close> (streamlit_app.py 137-154).\<close>

definition st_generate_summary ::
  "world \<Rightarrow> text_summarizer \<Rightarrow> document list \<Rightarrow> state \<Rightarrow> (py_exception + string) \<times> state" where
  "st_generate_summary w self docs s =
     (let s1 = invoke (ChainRun (llm self) (prompt self) docs) s in
      case summarize_chain w (llm self) (prompt self) docs of
        Inr text \<Rightarrow> (Inr text, s1)
      | Inl e \<Rightarrow>
          (Inl (ValueError (''Failed to generate summary: '' @ str_of e)),
           log_msg ERROR (''Error generating summary: '' @ str_of e) s1))"

text \<open>
  \<open>main\<close> (streamlit_app.py 166-201). \<open>api_key\<close> and \<open>url\<close> are the values of the two text
  inputs, \<open>clicked\<close> is what \<open>st.button\<close> returns; what the page then shows is the list of
  \<open>st.error\<close> and \<open>st.success\<close> calls. \<open>main_try\<close> is the part of the \<open>try\<close> after the two
  checks, which cannot raise.
\<close>

datatype st_event = StError string | StSuccess string

definition main_try ::
  "world \<Rightarrow> string \<Rightarrow> string \<Rightarrow> state \<Rightarrow> (py_exception + st_event list) \<times> state" where
  "main_try w api_key url s =
     (case st_text_summarizer_init w api_key s of
        (Inl e, s1) \<Rightarrow> (Inl e, s1)
      | (Inr summarizer, s1) \<Rightarrow>
          (case st_load_content w url s1 of
             (Inl e, s2) \<Rightarrow> (Inl e, s2)
           | (Inr docs, s2) \<Rightarrow>
               (case st_generate_summary w summarizer docs s2 of
                  (Inl e, s3) \<Rightarrow> (Inl e, s3)
                | (Inr summary, s3) \<Rightarrow>
                    (Inr [StSuccess summary], log_msg INFO ''Successfully generated summary'' s3))))"

definition main ::
  "world \<Rightarrow> string \<Rightarrow> string \<Rightarrow> bool \<Rightarrow> state \<Rightarrow> st_event list \<times> state" where
  "main w api_key url clicked s =
     (if \<not> clicked then ([], s)
      else if strip api_key = [] \<or> strip url = []
      then ([StError ''Please provide both API key and URL to get started''], s)
      else if \<not> validators_url w url
      then ([StError ''Please enter a valid URL (YouTube video or website)''], s)
      else
        (case main_try w api_key url s of
           (Inl (ValueError m), s1) \<Rightarrow> ([StError m], s1)
         | (Inl (OtherException m), s1) \<Rightarrow>
             ([StError ''An unexpected error occurred. Please try again later.''],
              log_exception ''Unexpected error occurred'' (OtherException m) s1)
         | (Inr shown, s1) \<Rightarrow> (shown, s1)))"

section \<open>Concrete collaborators for evaluation\<close>

text \<open>
  \<open>validators.url\<close> is a parameter of the embedding. Where a statement is evaluated at a
  concrete input, \<open>sample_validator\<close> stands for it: it accepts a text that starts with
  \<open>http://\<close> or \<open>https://\<close> and holds no white space. The library agrees with it on the
  inputs used below: it accepts \<open>https://example.com/article\<close> and the video URL, and
  rejects the same text with a leading blank and the text \<open>not a url\<close>.
  \<open>fixed_world\<close> is a world whose other collaborators answer the same whatever they are
  asked; in \<open>keyed_world\<close> the completion service rejects every key but one.
\<close>

definition sample_validator :: "string \<Rightarrow> bool" where
  "sample_validator u =
     ((prefix ''http://'' u \<or> prefix ''https://'' u) \<and> \<not> list_ex isspace u)"

definition fixed_world ::
  "py_exception option \<Rightarrow> (py_exception + document list) \<Rightarrow> (py_exception + document list) \<Rightarrow>
   (py_exception + document list) \<Rightarrow> (py_exception + string) \<Rightarrow> world" where
  "fixed_world ctor with_info without_info page gen =
     \<lparr>validators_url = sample_validator,
      chat_groq_init = (\<lambda>model key. ctor),
      youtube_loader = (\<lambda>url add_video_info. if add_video_info then with_info else without_info),
      unstructured_url_loader = (\<lambda>url. page),
      summarize_chain = (\<lambda>client template docs. gen)\<rparr>"

definition transcript :: document where
  "transcript = Document ''transcript text'' []"

definition page_text :: document where
  "page_text = Document ''page text'' []"

definition ok_world :: world where
  "ok_world =
     fixed_world None (Inr [transcript]) (Inr [transcript]) (Inr [page_text]) (Inr ''Summary text'')"


definition s0 :: state where
  "s0 = \<lparr>logs = [], calls = []\<rparr>"

definition video_url :: string where
  "video_url = ''https://www.youtube.com/watch?v=abc''"

definition page_url :: string where
  "page_url = ''https://example.com/article''"


section \<open>Basic facts\<close>

lemma py_in_sublist: "py_in p s = sublist p s"
  by (induction s) (auto simp: sublist_Cons_right)

lemma is_youtube_sublist:
  "is_youtube url = (sublist ''youtube.com'' url \<or> sublist ''youtu.be'' url)"
  by (simp add: is_youtube_def py_in_sublist)

lemma calls_log_msg [simp]: "calls (log_msg l m s) = calls s"
  by (simp add: log_msg_def)

lemma logs_log_msg [simp]: "logs (log_msg l m s) = logs s @ [LogRecord l m None]"
  by (simp add: log_msg_def)

lemma calls_log_exception [simp]: "calls (log_exception m e s) = calls s"
  by (simp add: log_exception_def)

lemma logs_log_exception [simp]: "logs (log_exception m e s) = logs s @ [LogRecord ERROR m (Some e)]"
  by (simp add: log_exception_def)

lemma logs_invoke [simp]: "logs (invoke c s) = logs s"
  by (simp add: invoke_def)

lemma calls_invoke [simp]: "calls (invoke c s) = calls s @ [c]"
  by (simp add: invoke_def)

subsection \<open>The two video attempts\<close>

lemma eyc_first_ok:
  "youtube_loader w url True = Inr docs \<Longrightarrow> docs \<noteq> [] \<Longrightarrow>
   fst (extract_youtube_content w url s) = Inr docs \<and>
   calls (snd (extract_youtube_content w url s)) = calls s @ [YoutubeLoad url True [''en'']]"
  by (simp add: extract_youtube_content_def Let_def)

lemma st_eyc_first_ok:
  "youtube_loader w url True = Inr docs \<Longrightarrow> docs \<noteq> [] \<Longrightarrow>
   fst (st_extract_youtube_content w url s) = Inr docs \<and>
   calls (snd (st_extract_youtube_content w url s)) = calls s @ [YoutubeLoad url True [''en'']]"
  by (simp add: st_extract_youtube_content_def Let_def)

lemma eyc_calls_fallback:
  "youtube_loader w url True = Inr [] \<or> (\<exists>e. youtube_loader w url True = Inl e) \<Longrightarrow>
   calls (snd (extract_youtube_content w url s)) =
     calls s @ [YoutubeLoad url True [''en''], YoutubeLoad url False [''en'']]"
  by (auto simp: extract_youtube_content_def Let_def split: sum.splits)

lemma st_eyc_calls_fallback:
  "youtube_loader w url True = Inr [] \<or> (\<exists>e. youtube_loader w url True = Inl e) \<Longrightarrow>
   calls (snd (st_extract_youtube_content w url s)) =
     calls s @ [YoutubeLoad url True [''en''], YoutubeLoad url False [''en'']]"
  by (auto simp: st_extract_youtube_content_def Let_def split: sum.splits)

lemma eyc_fallback_ok:
  "youtube_loader w url True = Inr [] \<or> (\<exists>e. youtube_loader w url True = Inl e) \<Longrightarrow>
   youtube_loader w url False = Inr docs \<Longrightarrow> docs \<noteq> [] \<Longrightarrow>
   fst (extract_youtube_content w url s) = Inr docs"
  by (auto simp: extract_youtube_content_def Let_def split: sum.splits)

lemma st_eyc_fallback_ok:
  "youtube_loader w url True = Inr [] \<or> (\<exists>e. youtube_loader w url True = Inl e) \<Longrightarrow>
   youtube_loader w url False = Inr docs \<Longrightarrow> docs \<noteq> [] \<Longrightarrow>
   fst (st_extract_youtube_content w url s) = Inr docs"
  by (auto simp: st_extract_youtube_content_def Let_def split: sum.splits)

lemma eyc_both_fail:
  "youtube_loader w url True = Inr [] \<or> (\<exists>e. youtube_loader w url True = Inl e) \<Longrightarrow>
   youtube_loader w url False = Inr [] \<or> (\<exists>e. youtube_loader w url False = Inl e) \<Longrightarrow>
   \<exists>d. fst (extract_youtube_content w url s) = Inl (HTTPException 400 d)"
  by (auto simp: extract_youtube_content_def Let_def split: sum.splits)

lemma st_eyc_both_fail:
  "youtube_loader w url True = Inr [] \<or> (\<exists>e. youtube_loader w url True = Inl e) \<Longrightarrow>
   youtube_loader w url False = Inr [] \<or> (\<exists>e. youtube_loader w url False = Inl e) \<Longrightarrow>
   \<exists>e. fst (st_extract_youtube_content w url s) = Inl e"
  by (auto simp: st_extract_youtube_content_def Let_def split: sum.splits)

lemma eyc_failure_400:
  "fst (extract_youtube_content w url s) = Inl x \<Longrightarrow>
   x = HTTPException 400 ''No content could be extracted from the YouTube video'' \<or>
   x = HTTPException 400
         ''Could not extract YouTube transcript. Please ensure the video has English subtitles available.''"
  by (auto simp: extract_youtube_content_def Let_def split: sum.splits if_splits)

lemma load_content_youtube:
  "is_youtube url \<Longrightarrow> load_content w url s = extract_youtube_content w url s"
proof -
  assume v: "is_youtube url"
  obtain r s1 where e: "extract_youtube_content w url s = (r, s1)"
    by (cases "extract_youtube_content w url s")
  show ?thesis
  proof (cases r)
    case (Inl x)
    with e have "fst (extract_youtube_content w url s) = Inl x" by simp
    then obtain d where "x = HTTPException 400 d"
      using eyc_failure_400 by blast
    with v e Inl show ?thesis
      by (simp add: load_content_def load_content_try_def)
  next
    case (Inr docs)
    with v e show ?thesis
      by (simp add: load_content_def load_content_try_def)
  qed
qed

lemma st_load_content_youtube_ok:
  "is_youtube url \<Longrightarrow> fst (st_extract_youtube_content w url s) = Inr docs \<Longrightarrow>
   fst (st_load_content w url s) = Inr docs"
  by (cases "st_extract_youtube_content w url s")
     (simp add: st_load_content_def st_load_content_try_def)

lemma st_load_content_youtube_calls:
  "is_youtube url \<Longrightarrow>
   calls (snd (st_load_content w url s)) = calls (snd (st_extract_youtube_content w url s))"
  by (cases "st_extract_youtube_content w url s")
     (auto simp: st_load_content_def st_load_content_try_def Let_def split: sum.splits)

lemma st_load_content_youtube_failure:
  "is_youtube url \<Longrightarrow> fst (st_extract_youtube_content w url s) = Inl e \<Longrightarrow>
   fst (st_load_content w url s) = Inl (ValueError YOUTUBE_GUIDANCE)"
  by (cases "st_extract_youtube_content w url s")
     (simp add: st_load_content_def st_load_content_try_def Let_def)

section \<open>The claims\<close>

text \<open>
  C1. For a video URL, extraction has two stages in a fixed order. When the attempt with
  video metadata returns a non-empty list, \<open>load_content\<close> returns that list and the
  loader has been called once. When it raises or returns the empty list, the loader is
  called a second time, without metadata, and a non-empty list of that second attempt is
  what \<open>load_content\<close> returns: an exception of the first stage leads to the second stage,
  not to a failure. When the second attempt raises or returns the empty list as well,
  there is no third call and \<open>load_content\<close> fails with its own error (status 400 at the
  endpoint), never with the collaborator's exception. Both front ends behave so.
\<close>

theorem video_two_stage_fallback:
  assumes "is_youtube url"
  shows
    "(\<forall>docs. youtube_loader w url True = Inr docs \<and> docs \<noteq> [] \<longrightarrow>
        fst (load_content w url s) = Inr docs \<and>
        calls (snd (load_content w url s)) = calls s @ [YoutubeLoad url True [''en'']] \<and>
        fst (st_load_content w url s) = Inr docs \<and>
        calls (snd (st_load_content w url s)) = calls s @ [YoutubeLoad url True [''en'']]) \<and>
     (youtube_loader w url True = Inr [] \<or> (\<exists>e. youtube_loader w url True = Inl e) \<longrightarrow>
        calls (snd (load_content w url s)) =
          calls s @ [YoutubeLoad url True [''en''], YoutubeLoad url False [''en'']] \<and>
        calls (snd (st_load_content w url s)) =
          calls s @ [YoutubeLoad url True [''en''], YoutubeLoad url False [''en'']] \<and>
        (\<forall>docs. youtube_loader w url False = Inr docs \<and> docs \<noteq> [] \<longrightarrow>
           fst (load_content w url s) = Inr docs \<and> fst (st_load_content w url s) = Inr docs) \<and>
        (youtube_loader w url False = Inr [] \<or> (\<exists>e. youtube_loader w url False = Inl e) \<longrightarrow>
           (\<exists>d. fst (load_content w url s) = Inl (HTTPException 400 d)) \<and>
           fst (st_load_content w url s) = Inl (ValueError YOUTUBE_GUIDANCE)))"
proof (intro conjI allI impI)
  fix docs
  assume h: "youtube_loader w url True = Inr docs \<and> docs \<noteq> []"
  show "fst (load_content w url s) = Inr docs"
    using assms h by (simp add: load_content_youtube eyc_first_ok)
  show "calls (snd (load_content w url s)) = calls s @ [YoutubeLoad url True [''en'']]"
    using assms h by (simp add: load_content_youtube eyc_first_ok)
  show "fst (st_load_content w url s) = Inr docs"
    using assms h by (simp add: st_load_content_youtube_ok st_eyc_first_ok)
  show "calls (snd (st_load_content w url s)) = calls s @ [YoutubeLoad url True [''en'']]"
    using assms h by (simp add: st_load_content_youtube_calls st_eyc_first_ok)
next
  assume h: "youtube_loader w url True = Inr [] \<or> (\<exists>e. youtube_loader w url True = Inl e)"
  show "calls (snd (load_content w url s)) =
          calls s @ [YoutubeLoad url True [''en''], YoutubeLoad url False [''en'']]"
    using assms eyc_calls_fallback [OF h] by (simp add: load_content_youtube)
  show "calls (snd (st_load_content w url s)) =
          calls s @ [YoutubeLoad url True [''en''], YoutubeLoad url False [''en'']]"
    using assms st_eyc_calls_fallback [OF h] by (simp add: st_load_content_youtube_calls)
next
  fix docs
  assume h: "youtube_loader w url True = Inr [] \<or> (\<exists>e. youtube_loader w url True = Inl e)"
    and g: "youtube_loader w url False = Inr docs \<and> docs \<noteq> []"
  show "fst (load_content w url s) = Inr docs"
    using assms g eyc_fallback_ok [OF h] by (simp add: load_content_youtube)
  show "fst (st_load_content w url s) = Inr docs"
    using assms g st_eyc_fallback_ok [OF h] by (simp add: st_load_content_youtube_ok)
next
  assume h: "youtube_loader w url True = Inr [] \<or> (\<exists>e. youtube_loader w url True = Inl e)"
    and g: "youtube_loader w url False = Inr [] \<or> (\<exists>e. youtube_loader w url False = Inl e)"
  show "\<exists>d. fst (load_content w url s) = Inl (HTTPException 400 d)"
    using assms eyc_both_fail [OF h g] by (simp add: load_content_youtube)
  from st_eyc_both_fail [OF h g] obtain e where "fst (st_extract_youtube_content w url s) = Inl e" ..
  with assms show "fst (st_load_content w url s) = Inl (ValueError YOUTUBE_GUIDANCE)"
    by (rule st_load_content_youtube_failure)
qed

theorem video_two_stage_fallback_witness:
  "is_youtube video_url \<and>
   youtube_loader (fixed_world None (Inl (OtherException ''no metadata'')) (Inr [transcript])
                     (Inr []) (Inr ''Summary text'')) video_url True
     = Inl (OtherException ''no metadata'') \<and>
   fst (load_content (fixed_world None (Inl (OtherException ''no metadata'')) (Inr [transcript])
                        (Inr []) (Inr ''Summary text'')) video_url s0) = Inr [transcript] \<and>
   fst (st_load_content (fixed_world None (Inl (OtherException ''no metadata'')) (Inr [transcript])
                        (Inr []) (Inr ''Summary text'')) video_url s0) = Inr [transcript] \<and>
   calls (snd (load_content (fixed_world None (Inl (OtherException ''no metadata'')) (Inr [transcript])
                        (Inr []) (Inr ''Summary text'')) video_url s0))
     = [YoutubeLoad video_url True [''en''], YoutubeLoad video_url False [''en'']]"
proof -
  have v: "is_youtube video_url"
    by (simp add: is_youtube_def video_url_def)
  show ?thesis
    using v video_two_stage_fallback [OF v,
        of "fixed_world None (Inl (OtherException ''no metadata'')) (Inr [transcript]) (Inr []) (Inr ''Summary text'')" s0]
    by (simp add: fixed_world_def s0_def)
qed

text \<open>
  C5. \<open>load_content\<close> takes the video path exactly when \<open>youtube.com\<close> or \<open>youtu.be\<close>
  occurs in the URL: then it is \<open>extract_youtube_content\<close>, the first collaborator called
  is the video loader and the only other call can be its second attempt. Every other URL
  goes to the web loader, which is the only collaborator called. Both front ends behave so.
\<close>

theorem load_content_dispatch:
  "(sublist ''youtube.com'' url \<or> sublist ''youtu.be'' url \<longrightarrow>
      load_content w url s = extract_youtube_content w url s \<and>
      st_load_content_try w url s = st_extract_youtube_content w url s \<and>
      (\<exists>rest. calls (snd (load_content w url s)) = calls s @ YoutubeLoad url True [''en''] # rest \<and>
              set rest \<subseteq> {YoutubeLoad url False [''en'']}) \<and>
      (\<exists>rest. calls (snd (st_load_content w url s)) = calls s @ YoutubeLoad url True [''en''] # rest \<and>
              set rest \<subseteq> {YoutubeLoad url False [''en'']})) \<and>
   (\<not> (sublist ''youtube.com'' url \<or> sublist ''youtu.be'' url) \<longrightarrow>
      calls (snd (load_content w url s)) = calls s @ [UnstructuredURLLoad [url] False USER_AGENT] \<and>
      calls (snd (st_load_content w url s)) = calls s @ [UnstructuredURLLoad [url] False USER_AGENT])"
proof (intro conjI impI)
  assume "sublist ''youtube.com'' url \<or> sublist ''youtu.be'' url"
  then have v: "is_youtube url"
    by (simp add: is_youtube_sublist)
  have shape: "\<exists>rest. calls (snd (extract_youtube_content w url s)) =
                  calls s @ YoutubeLoad url True [''en''] # rest \<and>
                  set rest \<subseteq> {YoutubeLoad url False [''en'']}"
    by (auto simp: extract_youtube_content_def Let_def split: sum.splits)
  have st_shape: "\<exists>rest. calls (snd (st_extract_youtube_content w url s)) =
                  calls s @ YoutubeLoad url True [''en''] # rest \<and>
                  set rest \<subseteq> {YoutubeLoad url False [''en'']}"
    by (auto simp: st_extract_youtube_content_def Let_def split: sum.splits)
  show "load_content w url s = extract_youtube_content w url s"
    using v by (rule load_content_youtube)
  show "st_load_content_try w url s = st_extract_youtube_content w url s"
    using v by (simp add: st_load_content_try_def)
  show "\<exists>rest. calls (snd (load_content w url s)) = calls s @ YoutubeLoad url True [''en''] # rest \<and>
              set rest \<subseteq> {YoutubeLoad url False [''en'']}"
    using v shape by (simp add: load_content_youtube)
  show "\<exists>rest. calls (snd (st_load_content w url s)) = calls s @ YoutubeLoad url True [''en''] # rest \<and>
              set rest \<subseteq> {YoutubeLoad url False [''en'']}"
    using v st_shape by (simp add: st_load_content_youtube_calls)
next
  assume "\<not> (sublist ''youtube.com'' url \<or> sublist ''youtu.be'' url)"
  then have n: "\<not> is_youtube url"
    by (simp add: is_youtube_sublist)
  show "calls (snd (load_content w url s)) = calls s @ [UnstructuredURLLoad [url] False USER_AGENT]"
    using n by (auto simp: load_content_def load_content_try_def Let_def split: sum.splits)
  show "calls (snd (st_load_content w url s)) = calls s @ [UnstructuredURLLoad [url] False USER_AGENT]"
    using n by (auto simp: st_load_content_def st_load_content_try_def Let_def split: sum.splits)
qed

theorem load_content_dispatch_witness:
  "(sublist ''youtube.com'' video_url \<or> sublist ''youtu.be'' video_url) \<and>
   load_content ok_world video_url s0 = extract_youtube_content ok_world video_url s0 \<and>
   calls (snd (load_content ok_world video_url s0)) = [YoutubeLoad video_url True [''en'']] \<and>
   \<not> (sublist ''youtube.com'' page_url \<or> sublist ''youtu.be'' page_url) \<and>
   calls (snd (load_content ok_world page_url s0)) = [UnstructuredURLLoad [page_url] False USER_AGENT] \<and>
   calls (snd (st_load_content ok_world page_url s0)) = [UnstructuredURLLoad [page_url] False USER_AGENT]"
proof -
  have v: "sublist ''youtube.com'' video_url \<or> sublist ''youtu.be'' video_url"
    using is_youtube_sublist [of video_url] by (simp add: is_youtube_def video_url_def)
  have n: "\<not> (sublist ''youtube.com'' page_url \<or> sublist ''youtu.be'' page_url)"
    using is_youtube_sublist [of page_url] by (simp add: is_youtube_def page_url_def)
  have c: "calls (snd (extract_youtube_content ok_world video_url s0)) = [YoutubeLoad video_url True [''en'']]"
    by (simp add: extract_youtube_content_def Let_def ok_world_def fixed_world_def s0_def)
  show ?thesis
    using v n c load_content_dispatch [of video_url ok_world s0] load_content_dispatch [of page_url ok_world s0]
    by (simp add: s0_def)
qed

text \<open>
  C3. A request whose credential or URL is empty or only white space once trimmed, or
  whose URL the validator rejects, is turned down with a 400 (at the form: with an inline
  error) and the state is left as it was: no collaborator has been called and nothing has
  been logged. The endpoint validates the trimmed URL, the form the URL as typed.
\<close>

theorem invalid_input_rejected_before_any_call:
  "(strip (req_groq_api_key request) = [] \<or> strip (req_url request) = [] \<or>
    \<not> validators_url w (strip (req_url request)) \<longrightarrow>
      (\<exists>d. summarize w request s = (Inl (HTTPException 400 d), s)) \<and>
      calls (snd (summarize w request s)) = calls s) \<and>
   (strip api_key = [] \<or> strip url = [] \<or> \<not> validators_url w url \<longrightarrow>
      (\<exists>m. main w api_key url True s = ([StError m], s)) \<and>
      calls (snd (main w api_key url True s)) = calls s)"
  by (auto simp: summarize_def main_def Let_def)

theorem invalid_input_rejected_before_any_call_witness:
  "strip (req_groq_api_key (SummarizationRequest ''   '' page_url)) = [] \<and>
   summarize ok_world (SummarizationRequest ''   '' page_url) s0
     = (Inl (HTTPException 400 ''API Key is required''), s0) \<and>
   \<not> validators_url ok_world ''not a url'' \<and>
   main ok_world ''k'' ''not a url'' True s0
     = ([StError ''Please enter a valid URL (YouTube video or website)''], s0) \<and>
   calls (snd (main ok_world ''k'' ''not a url'' True s0)) = []"
proof -
  have a: "strip (req_groq_api_key (SummarizationRequest ''   '' page_url)) = []"
    by (simp add: strip_def isspace_def)
  have b: "\<not> validators_url ok_world ''not a url''"
    by (simp add: ok_world_def fixed_world_def sample_validator_def)
  have c: "strip ''k'' \<noteq> [] \<and> strip ''not a url'' \<noteq> []"
    by (simp add: strip_def isspace_def)
  show ?thesis
    using a b c
      invalid_input_rejected_before_any_call
        [of "SummarizationRequest ''   '' page_url" ok_world s0 "''k''" "''not a url''"]
    by (simp add: summarize_def main_def Let_def s0_def)
qed

text \<open>
  C7. When the completion call raises, \<open>generate_summary\<close> fails with a 500 whose detail is
  \<open>Failed to generate summary: \<close> followed by the text of the cause (the form's method
  raises a \<open>ValueError\<close> with the same text); when the call succeeds, the generated text is
  returned as it is.
\<close>

theorem generate_summary_outcomes:
  "(\<forall>e. summarize_chain w (llm self) (prompt self) docs = Inl e \<longrightarrow>
      fst (generate_summary w self docs s)
        = Inl (HTTPException 500 (''Failed to generate summary: '' @ str_of e)) \<and>
      fst (st_generate_summary w self docs s)
        = Inl (ValueError (''Failed to generate summary: '' @ str_of e)) \<and>
      sublist (str_of e) (''Failed to generate summary: '' @ str_of e)) \<and>
   (\<forall>summary. summarize_chain w (llm self) (prompt self) docs = Inr summary \<longrightarrow>
      fst (generate_summary w self docs s) = Inr summary \<and>
      fst (st_generate_summary w self docs s) = Inr summary)"
proof (intro conjI allI impI)
  fix e
  assume h: "summarize_chain w (llm self) (prompt self) docs = Inl e"
  show "fst (generate_summary w self docs s)
          = Inl (HTTPException 500 (''Failed to generate summary: '' @ str_of e))"
    using h by (simp add: generate_summary_def Let_def)
  show "fst (st_generate_summary w self docs s)
          = Inl (ValueError (''Failed to generate summary: '' @ str_of e))"
    using h by (simp add: st_generate_summary_def Let_def)
  show "sublist (str_of e) (''Failed to generate summary: '' @ str_of e)"
    using sublist_appendI [of "str_of e" "''Failed to generate summary: ''" "[]"] by simp
next
  fix summary
  assume h: "summarize_chain w (llm self) (prompt self) docs = Inr summary"
  show "fst (generate_summary w self docs s) = Inr summary"
    using h by (simp add: generate_summary_def Let_def)
  show "fst (st_generate_summary w self docs s) = Inr summary"
    using h by (simp add: st_generate_summary_def Let_def)
qed

theorem generate_summary_outcomes_witness:
  "summarize_chain (fixed_world None (Inr []) (Inr []) (Inr [page_text]) (Inl (OtherException ''rate limit reached'')))
       (ChatGroq GEMMA_MODEL ''k'') PROMPT_TEMPLATE [page_text]
     = Inl (OtherException ''rate limit reached'') \<and>
   fst (generate_summary (fixed_world None (Inr []) (Inr []) (Inr [page_text]) (Inl (OtherException ''rate limit reached'')))
         \<lparr>llm = ChatGroq GEMMA_MODEL ''k'', prompt = PROMPT_TEMPLATE\<rparr> [page_text] s0)
     = Inl (HTTPException 500 ''Failed to generate summary: rate limit reached'') \<and>
   summarize_chain ok_world (ChatGroq GEMMA_MODEL ''k'') PROMPT_TEMPLATE [page_text] = Inr ''Summary text'' \<and>
   fst (generate_summary ok_world \<lparr>llm = ChatGroq GEMMA_MODEL ''k'', prompt = PROMPT_TEMPLATE\<rparr> [page_text] s0)
     = Inr ''Summary text''"
  using generate_summary_outcomes
      [of "fixed_world None (Inr []) (Inr []) (Inr [page_text]) (Inl (OtherException ''rate limit reached''))"
          "\<lparr>llm = ChatGroq GEMMA_MODEL ''k'', prompt = PROMPT_TEMPLATE\<rparr>" "[page_text]" s0]
    generate_summary_outcomes
      [of ok_world "\<lparr>llm = ChatGroq GEMMA_MODEL ''k'', prompt = PROMPT_TEMPLATE\<rparr>" "[page_text]" s0]
  by (simp add: fixed_world_def ok_world_def)

text \<open>
  C8. For a URL that is not a video URL: when the web loader returns no document, the
  endpoint's \<open>load_content\<close> fails with a 400 \<open>No content could be extracted from the URL\<close>
  (the form's raises a \<open>ValueError\<close> that wraps the same text); when it returns a non-empty
  list, that list is returned.
\<close>

theorem generic_page_outcomes:
  assumes "\<not> is_youtube url"
  shows
    "(unstructured_url_loader w url = Inr [] \<longrightarrow>
        fst (load_content w url s)
          = Inl (HTTPException 400 ''No content could be extracted from the URL'') \<and>
        fst (st_load_content w url s)
          = Inl (ValueError ''Failed to load content: No content could be extracted from the URL'')) \<and>
     (\<forall>docs. unstructured_url_loader w url = Inr docs \<and> docs \<noteq> [] \<longrightarrow>
        fst (load_content w url s) = Inr docs \<and> fst (st_load_content w url s) = Inr docs)"
  using assms
  by (auto simp: load_content_def load_content_try_def st_load_content_def
        st_load_content_try_def Let_def)

theorem generic_page_outcomes_witness:
  "\<not> is_youtube page_url \<and>
   unstructured_url_loader (fixed_world None (Inr []) (Inr []) (Inr []) (Inr ''Summary text'')) page_url = Inr [] \<and>
   fst (load_content (fixed_world None (Inr []) (Inr []) (Inr []) (Inr ''Summary text'')) page_url s0)
     = Inl (HTTPException 400 ''No content could be extracted from the URL'') \<and>
   unstructured_url_loader ok_world page_url = Inr [page_text] \<and>
   fst (load_content ok_world page_url s0) = Inr [page_text] \<and>
   fst (st_load_content ok_world page_url s0) = Inr [page_text]"
proof -
  have n: "\<not> is_youtube page_url"
    by (simp add: is_youtube_def page_url_def)
  show ?thesis
    using n
      generic_page_outcomes [OF n, of "fixed_world None (Inr []) (Inr []) (Inr []) (Inr ''Summary text'')" s0]
      generic_page_outcomes [OF n, of ok_world s0]
    by (simp add: fixed_world_def ok_world_def)
qed

subsection \<open>Failures of the endpoint's summarizer\<close>

lemma load_content_failure_400:
  "fst (load_content w url s) = Inl x \<Longrightarrow> \<exists>d. x = HTTPException 400 d"
proof (cases "is_youtube url")
  case True
  assume "fst (load_content w url s) = Inl x"
  with True have "fst (extract_youtube_content w url s) = Inl x"
    by (simp add: load_content_youtube)
  then show ?thesis
    using eyc_failure_400 by blast
next
  case False
  assume "fst (load_content w url s) = Inl x"
  with False show ?thesis
    by (auto simp: load_content_def load_content_try_def Let_def split: sum.splits if_splits)
qed

lemma generate_summary_failure_500:
  "fst (generate_summary w self docs s) = Inl x \<Longrightarrow> \<exists>d. x = HTTPException 500 d"
  by (auto simp: generate_summary_def Let_def split: sum.splits)

lemma load_content_passes_http:
  "fst (load_content_try w url s) = Inl (HTTPException c d) \<Longrightarrow>
   fst (load_content w url s) = Inl (HTTPException c d)"
  by (cases "load_content_try w url s") (simp add: load_content_def)

lemma load_content_calls_extend: "\<exists>rest. calls (snd (load_content w url s)) = calls s @ rest"
proof (cases "is_youtube url")
  case True
  then show ?thesis
    by (auto simp: load_content_youtube extract_youtube_content_def Let_def split: sum.splits)
next
  case False
  then show ?thesis
    by (auto simp: load_content_def load_content_try_def Let_def split: sum.splits)
qed

lemma generate_summary_calls_extend:
  "\<exists>rest. calls (snd (generate_summary w self docs s)) = calls s @ rest"
  by (auto simp: generate_summary_def Let_def split: sum.splits)

lemma summarize_try_ctor_raises:
  "chat_groq_init w GEMMA_MODEL k = Some e \<Longrightarrow>
   summarize_try w k u s = (Inl (Raised e), invoke (NewChatGroq GEMMA_MODEL k) s)"
  by (simp add: summarize_try_def text_summarizer_init_def Let_def)

lemma summarize_try_ctor_ok:
  "chat_groq_init w GEMMA_MODEL k = None \<Longrightarrow>
   summarize_try w k u s =
     (case load_content w u (invoke (NewChatGroq GEMMA_MODEL k) s) of
        (Inl e, s2) \<Rightarrow> (Inl e, s2)
      | (Inr docs, s2) \<Rightarrow>
          (case generate_summary w \<lparr>llm = ChatGroq GEMMA_MODEL k, prompt = PROMPT_TEMPLATE\<rparr> docs s2 of
             (Inl e, s3) \<Rightarrow> (Inl e, s3)
           | (Inr summary, s3) \<Rightarrow> (Inr (SummarizationResponse summary), s3)))"
  by (simp add: summarize_try_def text_summarizer_init_def Let_def)

lemma summarize_try_failure:
  assumes "fst (summarize_try w k u s) = Inl x"
  shows "(\<exists>e. chat_groq_init w GEMMA_MODEL k = Some e \<and> x = Raised e) \<or>
         (\<exists>d. x = HTTPException 400 d) \<or> (\<exists>d. x = HTTPException 500 d)"
proof (cases "chat_groq_init w GEMMA_MODEL k")
  case (Some e)
  with assms show ?thesis
    by (simp add: summarize_try_ctor_raises)
next
  case None
  obtain r s2 where l: "load_content w u (invoke (NewChatGroq GEMMA_MODEL k) s) = (r, s2)"
    by (cases "load_content w u (invoke (NewChatGroq GEMMA_MODEL k) s)")
  show ?thesis
  proof (cases r)
    case (Inl y)
    with l have "fst (load_content w u (invoke (NewChatGroq GEMMA_MODEL k) s)) = Inl y"
      by simp
    then have "\<exists>d. y = HTTPException 400 d"
      by (rule load_content_failure_400)
    moreover have "x = y"
      using assms None l Inl by (simp add: summarize_try_ctor_ok)
    ultimately show ?thesis by blast
  next
    case (Inr docs)
    obtain g s3 where g:
      "generate_summary w \<lparr>llm = ChatGroq GEMMA_MODEL k, prompt = PROMPT_TEMPLATE\<rparr> docs s2 = (g, s3)"
      by (cases "generate_summary w \<lparr>llm = ChatGroq GEMMA_MODEL k, prompt = PROMPT_TEMPLATE\<rparr> docs s2")
    show ?thesis
    proof (cases g)
      case (Inl y)
      with g have "fst (generate_summary w \<lparr>llm = ChatGroq GEMMA_MODEL k, prompt = PROMPT_TEMPLATE\<rparr> docs s2) = Inl y"
        by simp
      then have "\<exists>d. y = HTTPException 500 d"
        by (rule generate_summary_failure_500)
      moreover have "x = y"
        using assms None l Inr g Inl by (simp add: summarize_try_ctor_ok)
      ultimately show ?thesis by blast
    next
      case (Inr summary)
      with assms None l \<open>r = Inr docs\<close> g show ?thesis
        by (simp add: summarize_try_ctor_ok)
    qed
  qed
qed

lemma summarize_try_calls:
  "\<exists>rest. calls (snd (summarize_try w k u s)) = calls s @ NewChatGroq GEMMA_MODEL k # rest"
proof (cases "chat_groq_init w GEMMA_MODEL k")
  case (Some e)
  then show ?thesis by (simp add: summarize_try_ctor_raises)
next
  case None
  obtain r s2 where l: "load_content w u (invoke (NewChatGroq GEMMA_MODEL k) s) = (r, s2)"
    by (cases "load_content w u (invoke (NewChatGroq GEMMA_MODEL k) s)")
  obtain a where a: "calls s2 = calls s @ NewChatGroq GEMMA_MODEL k # a"
    using load_content_calls_extend [of w u "invoke (NewChatGroq GEMMA_MODEL k) s"] l by auto
  show ?thesis
  proof (cases r)
    case (Inl y)
    with None l a show ?thesis by (simp add: summarize_try_ctor_ok)
  next
    case (Inr docs)
    obtain g s3 where g:
      "generate_summary w \<lparr>llm = ChatGroq GEMMA_MODEL k, prompt = PROMPT_TEMPLATE\<rparr> docs s2 = (g, s3)"
      by (cases "generate_summary w \<lparr>llm = ChatGroq GEMMA_MODEL k, prompt = PROMPT_TEMPLATE\<rparr> docs s2")
    obtain b where b: "calls s3 = calls s2 @ b"
      using generate_summary_calls_extend
        [of w "\<lparr>llm = ChatGroq GEMMA_MODEL k, prompt = PROMPT_TEMPLATE\<rparr>" docs s2] g by auto
    from None l Inr g a b show ?thesis
      by (cases g) (simp_all add: summarize_try_ctor_ok)
  qed
qed

lemma summarize_valid:
  "strip key \<noteq> [] \<Longrightarrow> strip u \<noteq> [] \<Longrightarrow> validators_url w (strip u) \<Longrightarrow>
   summarize w (SummarizationRequest key u) s =
     (case summarize_try w (strip key) (strip u) s of
        (Inl (HTTPException c d), s1) \<Rightarrow> (Inl (HTTPException c d), s1)
      | (Inl (Raised e), s1) \<Rightarrow>
          (Inl (HTTPException 500 (''An unexpected error occurred: '' @ str_of e)),
           log_exception ''Unexpected error occurred'' e s1)
      | (Inr response, s1) \<Rightarrow> (Inr response, s1))"
  by (simp add: summarize_def Let_def)

lemma summarize_failure:
  assumes "fst (summarize w request s) = Inl x"
  shows "\<exists>d. x = HTTPException 400 d \<or> x = HTTPException 500 d"
proof -
  obtain key u where r: "request = SummarizationRequest key u"
    by (cases request)
  show ?thesis
  proof (cases "strip key \<noteq> [] \<and> strip u \<noteq> [] \<and> validators_url w (strip u)")
    case False
    with assms r show ?thesis
      by (auto simp: summarize_def Let_def split: if_splits)
  next
    case True
    obtain t s1 where t: "summarize_try w (strip key) (strip u) s = (t, s1)"
      by (cases "summarize_try w (strip key) (strip u) s")
    show ?thesis
    proof (cases t)
      case (Inl y)
      with t have "fst (summarize_try w (strip key) (strip u) s) = Inl y" by simp
      from summarize_try_failure [OF this] assms r True t Inl show ?thesis
        by (auto simp: summarize_valid)
    next
      case (Inr response)
      with assms r True t show ?thesis
        by (simp add: summarize_valid)
    qed
  qed
qed

lemma load_content_loader_raises:
  "\<not> is_youtube url \<Longrightarrow> unstructured_url_loader w url = Inl e \<Longrightarrow>
   fst (load_content w url s) = Inl (HTTPException 400 (''Failed to load content: '' @ str_of e))"
  by (simp add: load_content_def load_content_try_def Let_def)

lemma load_content_loader_empty:
  "\<not> is_youtube url \<Longrightarrow> unstructured_url_loader w url = Inr [] \<Longrightarrow>
   fst (load_content w url s) = Inl (HTTPException 400 ''No content could be extracted from the URL'')"
  by (simp add: load_content_def load_content_try_def Let_def)

lemma load_content_video_second_empty:
  "is_youtube url \<Longrightarrow>
   youtube_loader w url True = Inr [] \<or> (\<exists>e. youtube_loader w url True = Inl e) \<Longrightarrow>
   youtube_loader w url False = Inr [] \<Longrightarrow>
   fst (load_content w url s)
     = Inl (HTTPException 400 ''No content could be extracted from the YouTube video'')"
  by (auto simp: load_content_youtube extract_youtube_content_def Let_def)

lemma load_content_video_second_raises:
  "is_youtube url \<Longrightarrow>
   youtube_loader w url True = Inr [] \<or> (\<exists>e. youtube_loader w url True = Inl e) \<Longrightarrow>
   youtube_loader w url False = Inl e2 \<Longrightarrow>
   fst (load_content w url s)
     = Inl (HTTPException 400
         ''Could not extract YouTube transcript. Please ensure the video has English subtitles available.'')"
  by (auto simp: load_content_youtube extract_youtube_content_def Let_def)

lemma load_content_docs:
  assumes "docs \<noteq> []"
    and "(\<not> is_youtube url \<and> unstructured_url_loader w url = Inr docs) \<or>
         (is_youtube url \<and> youtube_loader w url True = Inr docs) \<or>
         (is_youtube url \<and>
          (youtube_loader w url True = Inr [] \<or> (\<exists>e. youtube_loader w url True = Inl e)) \<and>
          youtube_loader w url False = Inr docs)"
  shows "fst (load_content w url s) = Inr docs"
proof -
  consider
    (page) "\<not> is_youtube url" "unstructured_url_loader w url = Inr docs"
    | (first) "is_youtube url" "youtube_loader w url True = Inr docs"
    | (second) "is_youtube url"
        "youtube_loader w url True = Inr [] \<or> (\<exists>e. youtube_loader w url True = Inl e)"
        "youtube_loader w url False = Inr docs"
    using assms(2) by blast
  then show ?thesis
  proof cases
    case page
    with assms(1) show ?thesis
      by (simp add: load_content_def load_content_try_def Let_def)
  next
    case first
    with assms(1) show ?thesis
      by (simp add: load_content_youtube eyc_first_ok)
  next
    case second
    from second(1) eyc_fallback_ok [OF second(2,3) assms(1)] show ?thesis
      by (simp add: load_content_youtube)
  qed
qed

lemma summarize_fst_valid:
  assumes "strip key \<noteq> []" "strip u \<noteq> []" "validators_url w (strip u)"
    and "chat_groq_init w GEMMA_MODEL (strip key) = None"
  shows "fst (summarize w (SummarizationRequest key u) s) =
     (case fst (load_content w (strip u) (invoke (NewChatGroq GEMMA_MODEL (strip key)) s)) of
        Inl x \<Rightarrow> Inl x
      | Inr docs \<Rightarrow>
          (case summarize_chain w (ChatGroq GEMMA_MODEL (strip key)) PROMPT_TEMPLATE docs of
             Inl e \<Rightarrow> Inl (HTTPException 500 (''Failed to generate summary: '' @ str_of e))
           | Inr summary \<Rightarrow> Inr (SummarizationResponse summary)))"
proof -
  obtain r s2 where l:
    "load_content w (strip u) (invoke (NewChatGroq GEMMA_MODEL (strip key)) s) = (r, s2)"
    by (cases "load_content w (strip u) (invoke (NewChatGroq GEMMA_MODEL (strip key)) s)")
  show ?thesis
  proof (cases r)
    case (Inl x)
    with l have "fst (load_content w (strip u) (invoke (NewChatGroq GEMMA_MODEL (strip key)) s)) = Inl x"
      by simp
    then obtain d where "x = HTTPException 400 d"
      using load_content_failure_400 by blast
    with assms l Inl show ?thesis
      by (simp add: summarize_valid summarize_try_ctor_ok)
  next
    case (Inr docs)
    with assms l show ?thesis
      by (simp add: summarize_valid summarize_try_ctor_ok generate_summary_def Let_def
            split: sum.splits)
  qed
qed

text \<open>
  C6. At the endpoint every failure is an \<open>HTTPException\<close> with status 400 or 500 and a
  detail text; no exception of a collaborator leaves \<open>summarize\<close> as it was raised. A
  failure of \<open>load_content\<close> has status 400, a failure of \<open>generate_summary\<close> status 500.
  An \<open>HTTPException\<close> raised inside \<open>load_content\<close> leaves it with the same status and
  detail, and one raised by the summarizer leaves \<open>summarize\<close> with the same status and
  detail. The answer of \<open>summarize\<close> is then given for every way the request and the
  collaborators can turn out: a request that fails one of the three checks is answered
  400 with that check's text; a client constructor that raises, 500; a web loader that
  raises, 400 with \<open>Failed to load content: \<close> and the cause; a web loader without
  documents, 400; two video attempts without documents, 400 with the text of the case;
  a completion call that raises on the loaded documents, 500 with
  \<open>Failed to generate summary: \<close> and the cause; and only when nothing failed, the summary.
\<close>

theorem failures_surface_categorized:
  "(\<forall>e. fst (summarize w request s) \<noteq> Inl (Raised e)) \<and>
   (\<forall>x. fst (summarize w request s) = Inl x \<longrightarrow>
      (\<exists>d. x = HTTPException 400 d \<or> x = HTTPException 500 d)) \<and>
   (\<forall>x. fst (load_content w url s) = Inl x \<longrightarrow> (\<exists>d. x = HTTPException 400 d)) \<and>
   (\<forall>x. fst (generate_summary w self docs s) = Inl x \<longrightarrow> (\<exists>d. x = HTTPException 500 d)) \<and>
   (\<forall>c d. fst (load_content_try w url s) = Inl (HTTPException c d) \<longrightarrow>
      fst (load_content w url s) = Inl (HTTPException c d)) \<and>
   (\<forall>c d. strip key \<noteq> [] \<and> strip u \<noteq> [] \<and> validators_url w (strip u) \<and>
          fst (summarize_try w (strip key) (strip u) s) = Inl (HTTPException c d) \<longrightarrow>
      fst (summarize w (SummarizationRequest key u) s) = Inl (HTTPException c d)) \<and>
   (strip key = [] \<longrightarrow>
      fst (summarize w (SummarizationRequest key u) s) = Inl (HTTPException 400 ''API Key is required'')) \<and>
   (strip key \<noteq> [] \<and> strip u = [] \<longrightarrow>
      fst (summarize w (SummarizationRequest key u) s) = Inl (HTTPException 400 ''URL is required'')) \<and>
   (strip key \<noteq> [] \<and> strip u \<noteq> [] \<and> \<not> validators_url w (strip u) \<longrightarrow>
      fst (summarize w (SummarizationRequest key u) s) = Inl (HTTPException 400 ''Invalid URL provided'')) \<and>
   (\<forall>e. strip key \<noteq> [] \<and> strip u \<noteq> [] \<and> validators_url w (strip u) \<and>
        chat_groq_init w GEMMA_MODEL (strip key) = Some e \<longrightarrow>
      fst (summarize w (SummarizationRequest key u) s)
        = Inl (HTTPException 500 (''An unexpected error occurred: '' @ str_of e))) \<and>
   (\<forall>e. strip key \<noteq> [] \<and> strip u \<noteq> [] \<and> validators_url w (strip u) \<and>
        chat_groq_init w GEMMA_MODEL (strip key) = None \<and>
        \<not> is_youtube (strip u) \<and> unstructured_url_loader w (strip u) = Inl e \<longrightarrow>
      fst (summarize w (SummarizationRequest key u) s)
        = Inl (HTTPException 400 (''Failed to load content: '' @ str_of e))) \<and>
   (strip key \<noteq> [] \<and> strip u \<noteq> [] \<and> validators_url w (strip u) \<and>
        chat_groq_init w GEMMA_MODEL (strip key) = None \<and>
        \<not> is_youtube (strip u) \<and> unstructured_url_loader w (strip u) = Inr [] \<longrightarrow>
      fst (summarize w (SummarizationRequest key u) s)
        = Inl (HTTPException 400 ''No content could be extracted from the URL'')) \<and>
   (strip key \<noteq> [] \<and> strip u \<noteq> [] \<and> validators_url w (strip u) \<and>
        chat_groq_init w GEMMA_MODEL (strip key) = None \<and>
        is_youtube (strip u) \<and> (youtube_loader w (strip u) True = Inr [] \<or> (\<exists>e. youtube_loader w (strip u) True = Inl e)) \<and>
        youtube_loader w (strip u) False = Inr [] \<longrightarrow>
      fst (summarize w (SummarizationRequest key u) s)
        = Inl (HTTPException 400 ''No content could be extracted from the YouTube video'')) \<and>
   (\<forall>e2. strip key \<noteq> [] \<and> strip u \<noteq> [] \<and> validators_url w (strip u) \<and>
        chat_groq_init w GEMMA_MODEL (strip key) = None \<and>
        is_youtube (strip u) \<and> (youtube_loader w (strip u) True = Inr [] \<or> (\<exists>e. youtube_loader w (strip u) True = Inl e)) \<and>
        youtube_loader w (strip u) False = Inl e2 \<longrightarrow>
      fst (summarize w (SummarizationRequest key u) s)
        = Inl (HTTPException 400
            ''Could not extract YouTube transcript. Please ensure the video has English subtitles available.'')) \<and>
   (\<forall>docs e. strip key \<noteq> [] \<and> strip u \<noteq> [] \<and> validators_url w (strip u) \<and>
        chat_groq_init w GEMMA_MODEL (strip key) = None \<and>
        docs \<noteq> [] \<and>
        ((\<not> is_youtube (strip u) \<and> unstructured_url_loader w (strip u) = Inr docs) \<or>
         (is_youtube (strip u) \<and> youtube_loader w (strip u) True = Inr docs) \<or>
         (is_youtube (strip u) \<and> (youtube_loader w (strip u) True = Inr [] \<or> (\<exists>e. youtube_loader w (strip u) True = Inl e)) \<and>
          youtube_loader w (strip u) False = Inr docs)) \<and>
        summarize_chain w (ChatGroq GEMMA_MODEL (strip key)) PROMPT_TEMPLATE docs = Inl e \<longrightarrow>
      fst (summarize w (SummarizationRequest key u) s)
        = Inl (HTTPException 500 (''Failed to generate summary: '' @ str_of e))) \<and>
   (\<forall>docs summary. strip key \<noteq> [] \<and> strip u \<noteq> [] \<and> validators_url w (strip u) \<and>
        chat_groq_init w GEMMA_MODEL (strip key) = None \<and>
        docs \<noteq> [] \<and>
        ((\<not> is_youtube (strip u) \<and> unstructured_url_loader w (strip u) = Inr docs) \<or>
         (is_youtube (strip u) \<and> youtube_loader w (strip u) True = Inr docs) \<or>
         (is_youtube (strip u) \<and> (youtube_loader w (strip u) True = Inr [] \<or> (\<exists>e. youtube_loader w (strip u) True = Inl e)) \<and>
          youtube_loader w (strip u) False = Inr docs)) \<and>
        summarize_chain w (ChatGroq GEMMA_MODEL (strip key)) PROMPT_TEMPLATE docs = Inr summary \<longrightarrow>
      fst (summarize w (SummarizationRequest key u) s) = Inr (SummarizationResponse summary)) \<and>
   (\<forall>e. \<not> is_youtube url \<and> unstructured_url_loader w url = Inl e \<longrightarrow>
      fst (load_content w url s)
        = Inl (HTTPException 400 (''Failed to load content: '' @ str_of e)))"
proof (intro conjI allI impI)
  fix e
  show "fst (summarize w request s) \<noteq> Inl (Raised e)"
    using summarize_failure [of w request s "Raised e"] by auto
next
  fix x
  assume "fst (summarize w request s) = Inl x"
  then show "\<exists>d. x = HTTPException 400 d \<or> x = HTTPException 500 d"
    by (rule summarize_failure)
next
  fix x
  assume "fst (load_content w url s) = Inl x"
  then show "\<exists>d. x = HTTPException 400 d"
    by (rule load_content_failure_400)
next
  fix x
  assume "fst (generate_summary w self docs s) = Inl x"
  then show "\<exists>d. x = HTTPException 500 d"
    by (rule generate_summary_failure_500)
next
  fix c d
  assume "fst (load_content_try w url s) = Inl (HTTPException c d)"
  then show "fst (load_content w url s) = Inl (HTTPException c d)"
    by (rule load_content_passes_http)
next
  fix c d
  assume h: "strip key \<noteq> [] \<and> strip u \<noteq> [] \<and> validators_url w (strip u) \<and>
             fst (summarize_try w (strip key) (strip u) s) = Inl (HTTPException c d)"
  then show "fst (summarize w (SummarizationRequest key u) s) = Inl (HTTPException c d)"
    by (cases "summarize_try w (strip key) (strip u) s") (simp add: summarize_valid)
next
  assume "strip key = []"
  then show "fst (summarize w (SummarizationRequest key u) s) = Inl (HTTPException 400 ''API Key is required'')"
    by (simp add: summarize_def Let_def)
next
  assume "strip key \<noteq> [] \<and> strip u = []"
  then show "fst (summarize w (SummarizationRequest key u) s) = Inl (HTTPException 400 ''URL is required'')"
    by (simp add: summarize_def Let_def)
next
  assume "strip key \<noteq> [] \<and> strip u \<noteq> [] \<and> \<not> validators_url w (strip u)"
  then show "fst (summarize w (SummarizationRequest key u) s) = Inl (HTTPException 400 ''Invalid URL provided'')"
    by (simp add: summarize_def Let_def)
next
  fix e
  assume "strip key \<noteq> [] \<and> strip u \<noteq> [] \<and> validators_url w (strip u) \<and>
        chat_groq_init w GEMMA_MODEL (strip key) = Some e"
  then show "fst (summarize w (SummarizationRequest key u) s)
        = Inl (HTTPException 500 (''An unexpected error occurred: '' @ str_of e))"
    by (simp add: summarize_valid summarize_try_ctor_raises)
next
  fix e
  assume "strip key \<noteq> [] \<and> strip u \<noteq> [] \<and> validators_url w (strip u) \<and>
        chat_groq_init w GEMMA_MODEL (strip key) = None \<and>
        \<not> is_youtube (strip u) \<and> unstructured_url_loader w (strip u) = Inl e"
  then show "fst (summarize w (SummarizationRequest key u) s)
        = Inl (HTTPException 400 (''Failed to load content: '' @ str_of e))"
    by (simp add: summarize_fst_valid load_content_loader_raises)
next
  assume "strip key \<noteq> [] \<and> strip u \<noteq> [] \<and> validators_url w (strip u) \<and>
        chat_groq_init w GEMMA_MODEL (strip key) = None \<and>
        \<not> is_youtube (strip u) \<and> unstructured_url_loader w (strip u) = Inr []"
  then show "fst (summarize w (SummarizationRequest key u) s)
        = Inl (HTTPException 400 ''No content could be extracted from the URL'')"
    by (simp add: summarize_fst_valid load_content_loader_empty)
next
  assume "strip key \<noteq> [] \<and> strip u \<noteq> [] \<and> validators_url w (strip u) \<and>
        chat_groq_init w GEMMA_MODEL (strip key) = None \<and>
        is_youtube (strip u) \<and> (youtube_loader w (strip u) True = Inr [] \<or> (\<exists>e. youtube_loader w (strip u) True = Inl e)) \<and>
        youtube_loader w (strip u) False = Inr []"
  then show "fst (summarize w (SummarizationRequest key u) s)
        = Inl (HTTPException 400 ''No content could be extracted from the YouTube video'')"
    by (simp add: summarize_fst_valid load_content_video_second_empty)
next
  fix e2
  assume "strip key \<noteq> [] \<and> strip u \<noteq> [] \<and> validators_url w (strip u) \<and>
        chat_groq_init w GEMMA_MODEL (strip key) = None \<and>
        is_youtube (strip u) \<and> (youtube_loader w (strip u) True = Inr [] \<or> (\<exists>e. youtube_loader w (strip u) True = Inl e)) \<and>
        youtube_loader w (strip u) False = Inl e2"
  then show "fst (summarize w (SummarizationRequest key u) s)
        = Inl (HTTPException 400
            ''Could not extract YouTube transcript. Please ensure the video has English subtitles available.'')"
    by (simp add: summarize_fst_valid load_content_video_second_raises)
next
  fix docs e
  assume h: "strip key \<noteq> [] \<and> strip u \<noteq> [] \<and> validators_url w (strip u) \<and>
        chat_groq_init w GEMMA_MODEL (strip key) = None \<and>
        docs \<noteq> [] \<and>
        ((\<not> is_youtube (strip u) \<and> unstructured_url_loader w (strip u) = Inr docs) \<or>
         (is_youtube (strip u) \<and> youtube_loader w (strip u) True = Inr docs) \<or>
         (is_youtube (strip u) \<and> (youtube_loader w (strip u) True = Inr [] \<or> (\<exists>e. youtube_loader w (strip u) True = Inl e)) \<and>
          youtube_loader w (strip u) False = Inr docs)) \<and>
        summarize_chain w (ChatGroq GEMMA_MODEL (strip key)) PROMPT_TEMPLATE docs = Inl e"
  then have d: "docs \<noteq> []"
    and j: "(\<not> is_youtube (strip u) \<and> unstructured_url_loader w (strip u) = Inr docs) \<or>
         (is_youtube (strip u) \<and> youtube_loader w (strip u) True = Inr docs) \<or>
         (is_youtube (strip u) \<and> (youtube_loader w (strip u) True = Inr [] \<or> (\<exists>e. youtube_loader w (strip u) True = Inl e)) \<and>
          youtube_loader w (strip u) False = Inr docs)"
    by blast+
  from load_content_docs [OF d j] h show "fst (summarize w (SummarizationRequest key u) s)
        = Inl (HTTPException 500 (''Failed to generate summary: '' @ str_of e))"
    by (simp add: summarize_fst_valid)
next
  fix docs summary
  assume h: "strip key \<noteq> [] \<and> strip u \<noteq> [] \<and> validators_url w (strip u) \<and>
        chat_groq_init w GEMMA_MODEL (strip key) = None \<and>
        docs \<noteq> [] \<and>
        ((\<not> is_youtube (strip u) \<and> unstructured_url_loader w (strip u) = Inr docs) \<or>
         (is_youtube (strip u) \<and> youtube_loader w (strip u) True = Inr docs) \<or>
         (is_youtube (strip u) \<and> (youtube_loader w (strip u) True = Inr [] \<or> (\<exists>e. youtube_loader w (strip u) True = Inl e)) \<and>
          youtube_loader w (strip u) False = Inr docs)) \<and>
        summarize_chain w (ChatGroq GEMMA_MODEL (strip key)) PROMPT_TEMPLATE docs = Inr summary"
  then have d: "docs \<noteq> []"
    and j: "(\<not> is_youtube (strip u) \<and> unstructured_url_loader w (strip u) = Inr docs) \<or>
         (is_youtube (strip u) \<and> youtube_loader w (strip u) True = Inr docs) \<or>
         (is_youtube (strip u) \<and> (youtube_loader w (strip u) True = Inr [] \<or> (\<exists>e. youtube_loader w (strip u) True = Inl e)) \<and>
          youtube_loader w (strip u) False = Inr docs)"
    by blast+
  from load_content_docs [OF d j] h show "fst (summarize w (SummarizationRequest key u) s) = Inr (SummarizationResponse summary)"
    by (simp add: summarize_fst_valid)
next
  fix e
  assume "\<not> is_youtube url \<and> unstructured_url_loader w url = Inl e"
  then show "fst (load_content w url s)
        = Inl (HTTPException 400 (''Failed to load content: '' @ str_of e))"
    by (simp add: load_content_loader_raises)
qed

theorem failures_surface_categorized_witness:
  "fst (load_content_try (fixed_world None (Inr []) (Inr []) (Inr []) (Inr ''Summary text'')) page_url s0)
     = Inl (HTTPException 400 ''No content could be extracted from the URL'') \<and>
   fst (load_content (fixed_world None (Inr []) (Inr []) (Inr []) (Inr ''Summary text'')) page_url s0)
     = Inl (HTTPException 400 ''No content could be extracted from the URL'') \<and>
   strip ''k'' \<noteq> [] \<and> strip page_url \<noteq> [] \<and>
   validators_url (fixed_world None (Inr []) (Inr []) (Inr []) (Inr ''Summary text'')) (strip page_url) \<and>
   fst (summarize_try (fixed_world None (Inr []) (Inr []) (Inr []) (Inr ''Summary text''))
          (strip ''k'') (strip page_url) s0)
     = Inl (HTTPException 400 ''No content could be extracted from the URL'') \<and>
   fst (summarize (fixed_world None (Inr []) (Inr []) (Inr []) (Inr ''Summary text''))
          (SummarizationRequest ''k'' page_url) s0)
     = Inl (HTTPException 400 ''No content could be extracted from the URL'') \<and>
   fst (generate_summary (fixed_world None (Inr []) (Inr []) (Inr [page_text]) (Inl (OtherException ''timeout'')))
          \<lparr>llm = ChatGroq GEMMA_MODEL ''k'', prompt = PROMPT_TEMPLATE\<rparr> [page_text] s0)
     = Inl (HTTPException 500 ''Failed to generate summary: timeout'') \<and>
   chat_groq_init (fixed_world None (Inr []) (Inr []) (Inl (OtherException ''connection refused'')) (Inr ''Summary text'')) GEMMA_MODEL (strip ''k'') = None \<and>
   \<not> is_youtube (strip page_url) \<and>
   unstructured_url_loader (fixed_world None (Inr []) (Inr []) (Inl (OtherException ''connection refused'')) (Inr ''Summary text'')) (strip page_url) = Inl (OtherException ''connection refused'') \<and>
   fst (load_content (fixed_world None (Inr []) (Inr []) (Inl (OtherException ''connection refused'')) (Inr ''Summary text'')) page_url s0)
     = Inl (HTTPException 400 ''Failed to load content: connection refused'') \<and>
   fst (summarize (fixed_world None (Inr []) (Inr []) (Inl (OtherException ''connection refused'')) (Inr ''Summary text'')) (SummarizationRequest ''k'' page_url) s0)
     = Inl (HTTPException 400 ''Failed to load content: connection refused'')"
proof -
  have n: "\<not> is_youtube page_url"
    by (simp add: is_youtube_def page_url_def)
  have k: "strip ''k'' = ''k''" and p: "strip page_url = page_url"
    by (simp_all add: strip_def isspace_def page_url_def)
  have v: "validators_url (fixed_world None (Inr []) (Inr []) (Inr []) (Inr ''Summary text'')) page_url"
    by (simp add: fixed_world_def sample_validator_def page_url_def isspace_def)
  have t: "fst (load_content_try (fixed_world None (Inr []) (Inr []) (Inr []) (Inr ''Summary text'')) page_url s)
             = Inl (HTTPException 400 ''No content could be extracted from the URL'')" for s
    using n by (simp add: load_content_try_def Let_def fixed_world_def)
  have l: "load_content (fixed_world None (Inr []) (Inr []) (Inr []) (Inr ''Summary text'')) page_url s
             = (Inl (HTTPException 400 ''No content could be extracted from the URL''),
                invoke (UnstructuredURLLoad [page_url] False USER_AGENT) s)" for s
    using n by (simp add: load_content_def load_content_try_def Let_def fixed_world_def)
  have y: "fst (summarize_try (fixed_world None (Inr []) (Inr []) (Inr []) (Inr ''Summary text''))
                  ''k'' page_url s0)
             = Inl (HTTPException 400 ''No content could be extracted from the URL'')"
  proof -
    have "chat_groq_init (fixed_world None (Inr []) (Inr []) (Inr []) (Inr ''Summary text''))
            GEMMA_MODEL ''k'' = None"
      by (simp add: fixed_world_def)
    then show ?thesis
      by (simp add: summarize_try_ctor_ok l)
  qed
  have g: "fst (generate_summary (fixed_world None (Inr []) (Inr []) (Inr [page_text]) (Inl (OtherException ''timeout'')))
          \<lparr>llm = ChatGroq GEMMA_MODEL ''k'', prompt = PROMPT_TEMPLATE\<rparr> [page_text] s0)
     = Inl (HTTPException 500 ''Failed to generate summary: timeout'')"
    by (simp add: generate_summary_def Let_def fixed_world_def)
  have pn: "page_url \<noteq> []"
    by (simp add: page_url_def)
  have v1: "validators_url (fixed_world None (Inr []) (Inr []) (Inl (OtherException ''connection refused'')) (Inr ''Summary text'')) page_url"
    by (simp add: fixed_world_def sample_validator_def page_url_def isspace_def)
  have c1: "chat_groq_init (fixed_world None (Inr []) (Inr []) (Inl (OtherException ''connection refused'')) (Inr ''Summary text'')) GEMMA_MODEL ''k'' = None"
    and l1: "unstructured_url_loader (fixed_world None (Inr []) (Inr []) (Inl (OtherException ''connection refused'')) (Inr ''Summary text'')) page_url = Inl (OtherException ''connection refused'')"
    by (simp_all add: fixed_world_def)
  show ?thesis
    using k p pn n v t [of s0] l [of s0] y g v1 c1 l1
      failures_surface_categorized
        [of "fixed_world None (Inr []) (Inr []) (Inr []) (Inr ''Summary text'')"
            "SummarizationRequest ''k'' page_url" s0 page_url
            "\<lparr>llm = ChatGroq GEMMA_MODEL ''k'', prompt = PROMPT_TEMPLATE\<rparr>" "[page_text]" "''k''" page_url]
      failures_surface_categorized
        [of "fixed_world None (Inr []) (Inr []) (Inl (OtherException ''connection refused'')) (Inr ''Summary text'')"
            "SummarizationRequest ''k'' page_url" s0 page_url
            "\<lparr>llm = ChatGroq GEMMA_MODEL ''k'', prompt = PROMPT_TEMPLATE\<rparr>" "[page_text]" "''k''" page_url]
    by simp
qed

subsection \<open>Where the two front ends part\<close>

lemma st_load_content_calls_extend:
  "\<exists>rest. calls (snd (st_load_content w url s)) = calls s @ rest"
proof (cases "is_youtube url")
  case True
  then show ?thesis
    by (auto simp: st_load_content_youtube_calls st_extract_youtube_content_def Let_def
          split: sum.splits)
next
  case False
  then show ?thesis
    by (auto simp: st_load_content_def st_load_content_try_def Let_def split: sum.splits)
qed

lemma st_generate_summary_calls_extend:
  "\<exists>rest. calls (snd (st_generate_summary w self docs s)) = calls s @ rest"
  by (auto simp: st_generate_summary_def Let_def split: sum.splits)

lemma main_try_calls:
  "\<exists>rest. calls (snd (main_try w k u s)) = calls s @ NewChatGroq GEMMA_MODEL k # rest"
proof (cases "chat_groq_init w GEMMA_MODEL k")
  case (Some e)
  then show ?thesis
    by (simp add: main_try_def st_text_summarizer_init_def Let_def)
next
  case None
  obtain r s2 where l: "st_load_content w u (invoke (NewChatGroq GEMMA_MODEL k) s) = (r, s2)"
    by (cases "st_load_content w u (invoke (NewChatGroq GEMMA_MODEL k) s)")
  obtain a where a: "calls s2 = calls s @ NewChatGroq GEMMA_MODEL k # a"
    using st_load_content_calls_extend [of w u "invoke (NewChatGroq GEMMA_MODEL k) s"] l by auto
  show ?thesis
  proof (cases r)
    case (Inl y)
    with None l a show ?thesis
      by (simp add: main_try_def st_text_summarizer_init_def Let_def)
  next
    case (Inr docs)
    obtain g s3 where g:
      "st_generate_summary w \<lparr>llm = ChatGroq GEMMA_MODEL k, prompt = PROMPT_TEMPLATE\<rparr> docs s2 = (g, s3)"
      by (cases "st_generate_summary w \<lparr>llm = ChatGroq GEMMA_MODEL k, prompt = PROMPT_TEMPLATE\<rparr> docs s2")
    obtain b where b: "calls s3 = calls s2 @ b"
      using st_generate_summary_calls_extend
        [of w "\<lparr>llm = ChatGroq GEMMA_MODEL k, prompt = PROMPT_TEMPLATE\<rparr>" docs s2] g by auto
    from None l Inr g a b show ?thesis
      by (cases g) (simp_all add: main_try_def st_text_summarizer_init_def Let_def)
  qed
qed

lemma summarize_delegates_iff:
  "(calls (snd (summarize w (SummarizationRequest key u) s)) \<noteq> calls s) =
   (strip key \<noteq> [] \<and> strip u \<noteq> [] \<and> validators_url w (strip u))"
proof (cases "strip key \<noteq> [] \<and> strip u \<noteq> [] \<and> validators_url w (strip u)")
  case True
  obtain t s1 where t: "summarize_try w (strip key) (strip u) s = (t, s1)"
    by (cases "summarize_try w (strip key) (strip u) s")
  obtain rest where "calls s1 = calls s @ NewChatGroq GEMMA_MODEL (strip key) # rest"
    using summarize_try_calls [of w "strip key" "strip u" s] t by auto
  with True t show ?thesis
    by (auto simp: summarize_valid split: sum.splits exn.splits)
next
  case False
  then show ?thesis
    by (auto simp: summarize_def Let_def)
qed

lemma main_delegates_iff:
  "(calls (snd (main w key u True s)) \<noteq> calls s) =
   (strip key \<noteq> [] \<and> strip u \<noteq> [] \<and> validators_url w u)"
proof (cases "strip key \<noteq> [] \<and> strip u \<noteq> [] \<and> validators_url w u")
  case True
  obtain t s1 where t: "main_try w key u s = (t, s1)"
    by (cases "main_try w key u s")
  obtain rest where "calls s1 = calls s @ NewChatGroq GEMMA_MODEL key # rest"
    using main_try_calls [of w key u s] t by auto
  with True t show ?thesis
    by (auto simp: main_def split: sum.splits py_exception.splits)
next
  case False
  then show ?thesis
    by (auto simp: main_def)
qed

lemma front_ends_agree_on_trimmed_url:
  "strip u = u \<Longrightarrow>
   (calls (snd (summarize w (SummarizationRequest key u) s)) \<noteq> calls s) =
   (calls (snd (main w key u True s)) \<noteq> calls s)"
  by (simp only: summarize_delegates_iff main_delegates_iff)

lemma endpoint_never_gives_youtube_guidance:
  assumes "is_youtube url"
  shows "fst (load_content w url s) \<noteq> Inl (HTTPException c YOUTUBE_GUIDANCE)"
proof
  assume "fst (load_content w url s) = Inl (HTTPException c YOUTUBE_GUIDANCE)"
  with assms have "fst (extract_youtube_content w url s) = Inl (HTTPException c YOUTUBE_GUIDANCE)"
    by (simp add: load_content_youtube)
  from eyc_failure_400 [OF this] show False
    by (simp add: YOUTUBE_GUIDANCE_def)
qed

lemma form_gives_youtube_guidance:
  assumes "is_youtube url" and "fst (st_load_content w url s) = Inl e"
  shows "e = ValueError YOUTUBE_GUIDANCE"
  using assms
  by (cases "st_extract_youtube_content w url s")
     (auto simp: st_load_content_def st_load_content_try_def Let_def split: sum.splits)

text \<open>
  C2. Both front ends test the credential first, then the URL, then its well-formedness,
  but not on the same text: the endpoint validates the trimmed URL, the form trims only
  for the emptiness test and validates the URL as typed. With the credential \<open>k\<close> and the
  URL \<open>https://example.com/article\<close> preceded by one blank, the endpoint accepts the
  request and answers with the summary, and the form rejects it as not a valid URL.
  \<open>front_ends_agree_on_trimmed_url\<close> above shows that the two decisions are the same on
  every URL without surrounding white space.
\<close>

theorem padded_url_splits_front_ends:
  "strip ''k'' \<noteq> [] \<and> strip '' https://example.com/article'' \<noteq> [] \<and>
   validators_url ok_world (strip '' https://example.com/article'') \<and>
   summarize ok_world (SummarizationRequest ''k'' '' https://example.com/article'') s0
     = (Inr (SummarizationResponse ''Summary text''),
        \<lparr>logs = [],
         calls = [NewChatGroq GEMMA_MODEL ''k'',
                  UnstructuredURLLoad [''https://example.com/article''] False USER_AGENT,
                  ChainRun (ChatGroq GEMMA_MODEL ''k'') PROMPT_TEMPLATE [page_text]]\<rparr>) \<and>
   main ok_world ''k'' '' https://example.com/article'' True s0
     = ([StError ''Please enter a valid URL (YouTube video or website)''], s0)"
proof -
  have k: "strip ''k'' = ''k''"
    and u: "strip '' https://example.com/article'' = ''https://example.com/article''"
    by (simp_all add: strip_def isspace_def)
  have v: "validators_url ok_world ''https://example.com/article''"
    and nv: "\<not> validators_url ok_world '' https://example.com/article''"
    by (simp_all add: ok_world_def fixed_world_def sample_validator_def isspace_def)
  have n: "\<not> is_youtube ''https://example.com/article''"
    by (simp add: is_youtube_def)
  have c: "chat_groq_init ok_world GEMMA_MODEL ''k'' = None"
    and l: "unstructured_url_loader ok_world ''https://example.com/article'' = Inr [page_text]"
    and g: "summarize_chain ok_world (ChatGroq GEMMA_MODEL ''k'') PROMPT_TEMPLATE [page_text]
              = Inr ''Summary text''"
    by (simp_all add: ok_world_def fixed_world_def)
  have a: "summarize ok_world (SummarizationRequest ''k'' '' https://example.com/article'') s0
     = (Inr (SummarizationResponse ''Summary text''),
        \<lparr>logs = [],
         calls = [NewChatGroq GEMMA_MODEL ''k'',
                  UnstructuredURLLoad [''https://example.com/article''] False USER_AGENT,
                  ChainRun (ChatGroq GEMMA_MODEL ''k'') PROMPT_TEMPLATE [page_text]]\<rparr>)"
    using k u v n c l g
    by (simp add: summarize_def summarize_try_def text_summarizer_init_def load_content_def
          load_content_try_def generate_summary_def invoke_def s0_def Let_def)
  have b: "main ok_world ''k'' '' https://example.com/article'' True s0
     = ([StError ''Please enter a valid URL (YouTube video or website)''], s0)"
    using k u nv by (simp add: main_def)
  from k u v a b show ?thesis by simp
qed

text \<open>
  C4. When both video attempts return nothing, the endpoint fails with status 400 and the
  detail \<open>No content could be extracted from the YouTube video\<close>, which names neither the
  video being public nor English captions; when the second attempt raises, the detail
  names English subtitles only. The text that names both is in \<open>load_content\<close>
  (app.py 150-158) and is never the detail for a video URL
  (\<open>endpoint_never_gives_youtube_guidance\<close> above); the form does show it
  (\<open>form_gives_youtube_guidance\<close>).
\<close>

theorem video_failure_detail_lacks_guidance:
  "is_youtube video_url \<and>
   load_content (fixed_world None (Inr []) (Inr []) (Inr []) (Inr ''Summary text'')) video_url s0
     = (Inl (HTTPException 400 ''No content could be extracted from the YouTube video''),
        \<lparr>logs = [],
         calls = [YoutubeLoad video_url True [''en''], YoutubeLoad video_url False [''en'']]\<rparr>) \<and>
   \<not> py_in ''public'' ''No content could be extracted from the YouTube video'' \<and>
   \<not> py_in ''English'' ''No content could be extracted from the YouTube video'' \<and>
   fst (load_content (fixed_world None (Inr []) (Inl (OtherException ''no transcript'')) (Inr [])
                        (Inr ''Summary text'')) video_url s0)
     = Inl (HTTPException 400
         ''Could not extract YouTube transcript. Please ensure the video has English subtitles available.'') \<and>
   \<not> py_in ''public''
       ''Could not extract YouTube transcript. Please ensure the video has English subtitles available.'' \<and>
   fst (st_load_content (fixed_world None (Inr []) (Inr []) (Inr []) (Inr ''Summary text'')) video_url s0)
     = Inl (ValueError YOUTUBE_GUIDANCE) \<and>
   py_in ''publicly available'' YOUTUBE_GUIDANCE \<and>
   py_in ''English subtitles/captions'' YOUTUBE_GUIDANCE"
proof -
  have v: "is_youtube video_url"
    by (simp add: is_youtube_def video_url_def)
  have a: "extract_youtube_content (fixed_world None (Inr []) (Inr []) (Inr []) (Inr ''Summary text'')) video_url s0
     = (Inl (HTTPException 400 ''No content could be extracted from the YouTube video''),
        \<lparr>logs = [],
         calls = [YoutubeLoad video_url True [''en''], YoutubeLoad video_url False [''en'']]\<rparr>)"
    by (simp add: extract_youtube_content_def Let_def fixed_world_def s0_def invoke_def)
  have b: "fst (extract_youtube_content (fixed_world None (Inr []) (Inl (OtherException ''no transcript'')) (Inr [])
                        (Inr ''Summary text'')) video_url s0)
     = Inl (HTTPException 400
         ''Could not extract YouTube transcript. Please ensure the video has English subtitles available.'')"
    by (simp add: extract_youtube_content_def Let_def fixed_world_def)
  have c: "fst (st_extract_youtube_content (fixed_world None (Inr []) (Inr []) (Inr []) (Inr ''Summary text'')) video_url s0)
     = Inl (ValueError ''No content could be extracted from the YouTube video'')"
    by (simp add: st_extract_youtube_content_def Let_def fixed_world_def)
  have d: "\<not> py_in ''public'' ''No content could be extracted from the YouTube video''"
    by simp
  have e: "\<not> py_in ''English'' ''No content could be extracted from the YouTube video''"
    by simp
  have f: "\<not> py_in ''public''
       ''Could not extract YouTube transcript. Please ensure the video has English subtitles available.''"
    by simp
  have g: "py_in ''publicly available'' YOUTUBE_GUIDANCE"
    by (simp add: YOUTUBE_GUIDANCE_def)
  have h: "py_in ''English subtitles/captions'' YOUTUBE_GUIDANCE"
    by (simp add: YOUTUBE_GUIDANCE_def)
  from v a b d e f g h st_load_content_youtube_failure [OF v c] show ?thesis
    by (simp add: load_content_youtube)
qed

subsection \<open>A client constructor that raises\<close>

lemma form_constructor_value_error:
  "strip key \<noteq> [] \<Longrightarrow> strip u \<noteq> [] \<Longrightarrow> validators_url w u \<Longrightarrow>
   chat_groq_init w GEMMA_MODEL key = Some (ValueError m) \<Longrightarrow>
   main w key u True s = ([StError m], invoke (NewChatGroq GEMMA_MODEL key) s)"
  by (simp add: main_def main_try_def st_text_summarizer_init_def Let_def)

text \<open>
  C10, as stated, fails at the form: when the client constructor raises a \<open>ValueError\<close>,
  the handler \<open>except ValueError\<close> of \<open>main\<close> shows the text of the exception itself, not
  the fixed text for unexpected errors, and nothing is logged.
\<close>

theorem form_shows_constructor_value_error:
  "main (fixed_world (Some (ValueError ''1 validation error for ChatGroq'')) (Inr []) (Inr [])
           (Inr [page_text]) (Inr ''Summary text''))
        ''not-a-real-key'' page_url True s0
     = ([StError ''1 validation error for ChatGroq''],
        \<lparr>logs = [], calls = [NewChatGroq GEMMA_MODEL ''not-a-real-key'']\<rparr>)"
proof -
  have k: "strip ''not-a-real-key'' \<noteq> []" and p: "strip page_url \<noteq> []"
    by (simp_all add: strip_def isspace_def page_url_def)
  have v: "validators_url (fixed_world (Some (ValueError ''1 validation error for ChatGroq'')) (Inr []) (Inr [])
           (Inr [page_text]) (Inr ''Summary text'')) page_url"
    by (simp add: fixed_world_def sample_validator_def page_url_def isspace_def)
  have c: "chat_groq_init (fixed_world (Some (ValueError ''1 validation error for ChatGroq'')) (Inr []) (Inr [])
           (Inr [page_text]) (Inr ''Summary text'')) GEMMA_MODEL ''not-a-real-key''
             = Some (ValueError ''1 validation error for ChatGroq'')"
    by (simp add: fixed_world_def)
  from form_constructor_value_error [OF k p v c, of s0] show ?thesis
    by (simp add: invoke_def s0_def)
qed

text \<open>
  C10, amended. A credential that is not empty once trimmed passes validation whatever it
  is worth: with a valid URL the client constructor is the first collaborator called, in
  both front ends. When that constructor raises, the endpoint answers 500 with the detail
  \<open>An unexpected error occurred: \<close> followed by the cause, logs the exception and calls
  nothing else; it never answers 400. The form, which has no status codes, shows its fixed
  text \<open>An unexpected error occurred. Please try again later.\<close> and logs the exception
  when the exception is not a \<open>ValueError\<close>.
\<close>

theorem constructor_failure_is_unexpected:
  "(strip key \<noteq> [] \<and> strip u \<noteq> [] \<and> validators_url w (strip u) \<longrightarrow>
      (\<exists>rest. calls (snd (summarize w (SummarizationRequest key u) s))
                 = calls s @ NewChatGroq GEMMA_MODEL (strip key) # rest) \<and>
      (\<forall>e. chat_groq_init w GEMMA_MODEL (strip key) = Some e \<longrightarrow>
         fst (summarize w (SummarizationRequest key u) s)
           = Inl (HTTPException 500 (''An unexpected error occurred: '' @ str_of e)) \<and>
         logs (snd (summarize w (SummarizationRequest key u) s))
           = logs s @ [LogRecord ERROR ''Unexpected error occurred'' (Some e)] \<and>
         calls (snd (summarize w (SummarizationRequest key u) s))
           = calls s @ [NewChatGroq GEMMA_MODEL (strip key)])) \<and>
   (strip key \<noteq> [] \<and> strip u \<noteq> [] \<and> validators_url w u \<longrightarrow>
      (\<exists>rest. calls (snd (main w key u True s)) = calls s @ NewChatGroq GEMMA_MODEL key # rest) \<and>
      (\<forall>m. chat_groq_init w GEMMA_MODEL key = Some (OtherException m) \<longrightarrow>
         main w key u True s
           = ([StError ''An unexpected error occurred. Please try again later.''],
              log_exception ''Unexpected error occurred'' (OtherException m)
                (invoke (NewChatGroq GEMMA_MODEL key) s))))"
proof (intro conjI allI impI)
  assume h: "strip key \<noteq> [] \<and> strip u \<noteq> [] \<and> validators_url w (strip u)"
  obtain t s1 where t: "summarize_try w (strip key) (strip u) s = (t, s1)"
    by (cases "summarize_try w (strip key) (strip u) s")
  obtain rest where "calls s1 = calls s @ NewChatGroq GEMMA_MODEL (strip key) # rest"
    using summarize_try_calls [of w "strip key" "strip u" s] t by auto
  with h t show "\<exists>rest. calls (snd (summarize w (SummarizationRequest key u) s))
                   = calls s @ NewChatGroq GEMMA_MODEL (strip key) # rest"
    by (auto simp: summarize_valid split: sum.splits exn.splits)
next
  fix e
  assume h: "strip key \<noteq> [] \<and> strip u \<noteq> [] \<and> validators_url w (strip u)"
    and c: "chat_groq_init w GEMMA_MODEL (strip key) = Some e"
  show "fst (summarize w (SummarizationRequest key u) s)
          = Inl (HTTPException 500 (''An unexpected error occurred: '' @ str_of e))"
    using h c by (simp add: summarize_valid summarize_try_ctor_raises)
  show "logs (snd (summarize w (SummarizationRequest key u) s))
          = logs s @ [LogRecord ERROR ''Unexpected error occurred'' (Some e)]"
    using h c by (simp add: summarize_valid summarize_try_ctor_raises)
  show "calls (snd (summarize w (SummarizationRequest key u) s))
          = calls s @ [NewChatGroq GEMMA_MODEL (strip key)]"
    using h c by (simp add: summarize_valid summarize_try_ctor_raises)
next
  assume h: "strip key \<noteq> [] \<and> strip u \<noteq> [] \<and> validators_url w u"
  obtain t s1 where t: "main_try w key u s = (t, s1)"
    by (cases "main_try w key u s")
  obtain rest where "calls s1 = calls s @ NewChatGroq GEMMA_MODEL key # rest"
    using main_try_calls [of w key u s] t by auto
  with h t show "\<exists>rest. calls (snd (main w key u True s)) = calls s @ NewChatGroq GEMMA_MODEL key # rest"
    by (auto simp: main_def split: sum.splits py_exception.splits)
next
  fix m
  assume h: "strip key \<noteq> [] \<and> strip u \<noteq> [] \<and> validators_url w u"
    and c: "chat_groq_init w GEMMA_MODEL key = Some (OtherException m)"
  show "main w key u True s
          = ([StError ''An unexpected error occurred. Please try again later.''],
             log_exception ''Unexpected error occurred'' (OtherException m)
               (invoke (NewChatGroq GEMMA_MODEL key) s))"
    using h c by (simp add: main_def main_try_def st_text_summarizer_init_def Let_def)
qed

theorem constructor_failure_is_unexpected_witness:
  "strip ''not-a-real-key'' \<noteq> [] \<and> strip page_url \<noteq> [] \<and>
   validators_url (fixed_world (Some (OtherException ''client rejected the key'')) (Inr []) (Inr [])
                     (Inr [page_text]) (Inr ''Summary text'')) (strip page_url) \<and>
   validators_url (fixed_world (Some (OtherException ''client rejected the key'')) (Inr []) (Inr [])
                     (Inr [page_text]) (Inr ''Summary text'')) page_url \<and>
   chat_groq_init (fixed_world (Some (OtherException ''client rejected the key'')) (Inr []) (Inr [])
                     (Inr [page_text]) (Inr ''Summary text'')) GEMMA_MODEL (strip ''not-a-real-key'')
     = Some (OtherException ''client rejected the key'') \<and>
   fst (summarize (fixed_world (Some (OtherException ''client rejected the key'')) (Inr []) (Inr [])
                     (Inr [page_text]) (Inr ''Summary text''))
          (SummarizationRequest ''not-a-real-key'' page_url) s0)
     = Inl (HTTPException 500 ''An unexpected error occurred: client rejected the key'') \<and>
   calls (snd (summarize (fixed_world (Some (OtherException ''client rejected the key'')) (Inr []) (Inr [])
                     (Inr [page_text]) (Inr ''Summary text''))
          (SummarizationRequest ''not-a-real-key'' page_url) s0))
     = [NewChatGroq GEMMA_MODEL ''not-a-real-key''] \<and>
   main (fixed_world (Some (OtherException ''client rejected the key'')) (Inr []) (Inr [])
                     (Inr [page_text]) (Inr ''Summary text''))
          ''not-a-real-key'' page_url True s0
     = ([StError ''An unexpected error occurred. Please try again later.''],
        \<lparr>logs = [LogRecord ERROR ''Unexpected error occurred''
                   (Some (OtherException ''client rejected the key''))],
         calls = [NewChatGroq GEMMA_MODEL ''not-a-real-key'']\<rparr>)"
proof -
  have k: "strip ''not-a-real-key'' = ''not-a-real-key''" and p: "strip page_url = page_url"
    by (simp_all add: strip_def isspace_def page_url_def)
  have v: "validators_url (fixed_world (Some (OtherException ''client rejected the key'')) (Inr []) (Inr [])
                     (Inr [page_text]) (Inr ''Summary text'')) page_url"
    by (simp add: fixed_world_def sample_validator_def page_url_def isspace_def)
  have c: "chat_groq_init (fixed_world (Some (OtherException ''client rejected the key'')) (Inr []) (Inr [])
                     (Inr [page_text]) (Inr ''Summary text'')) GEMMA_MODEL ''not-a-real-key''
     = Some (OtherException ''client rejected the key'')"
    by (simp add: fixed_world_def)
  have pn: "page_url \<noteq> []"
    by (simp add: page_url_def)
  show ?thesis
    using k p pn v c
      constructor_failure_is_unexpected
        [of "''not-a-real-key''" page_url
            "fixed_world (Some (OtherException ''client rejected the key'')) (Inr []) (Inr [])
                     (Inr [page_text]) (Inr ''Summary text'')" s0]
    by (simp add: s0_def invoke_def log_exception_def)
qed

subsection \<open>What the result and the log depend on\<close>





subsection \<open>The collaborator calls of one request\<close>















end
